theory Spec2Isabelle
  imports Main "HOL-Library.Word" "HOL-Library.Char_ord" "HOL-Library.List_Lexorder"
begin

section \<open>xDS endpoint (EDS) resource decoding: src/core/ext/xds/xds_endpoint.cc\<close>

text \<open>
  The theory embeds the EDS parser of \<^verbatim>\<open>xds_endpoint.cc\<close>: \<^verbatim>\<open>ServerAddressParse\<close>,
  \<^verbatim>\<open>LocalityParse\<close>, \<^verbatim>\<open>DropParseAndAppend\<close>, \<^verbatim>\<open>EdsResourceParse\<close>,
  \<^verbatim>\<open>XdsEndpointResourceType::Decode\<close> and \<^verbatim>\<open>DropConfig::ShouldDrop\<close>.
  The decoded wire messages (upb structs) are records whose fields carry the names of the upb
  accessors; a sub-message that may be absent (a null pointer in the source) is an option.
  The \<^verbatim>\<open>ValidationErrors*\<close> argument that the source mutates is passed in and returned.
  Strings are byte lists (\<^typ>\<open>string\<close>), \<^verbatim>\<open>uint32_t\<close> is \<^typ>\<open>32 word\<close>, \<^verbatim>\<open>size_t\<close> indices are
  \<^typ>\<open>nat\<close> (the source adds 1 to a value below \<open>2^32\<close> in a 64-bit \<^verbatim>\<open>size_t\<close>).
\<close>

subsection \<open>String helpers (absl::StrCat, absl::StrJoin)\<close>

text \<open>\<^verbatim>\<open>absl::StrCat\<close> of a \<^verbatim>\<open>size_t\<close>: its decimal digits.\<close>

fun StrCat_nat :: "nat \<Rightarrow> string" where
  "StrCat_nat n = (if n < 10 then [''0123456789'' ! n]
                   else StrCat_nat (n div 10) @ [''0123456789'' ! (n mod 10)])"

declare StrCat_nat.simps [simp del]

text \<open>\<^verbatim>\<open>absl::StrJoin(parts, sep)\<close>.\<close>

fun StrJoin :: "string list \<Rightarrow> string \<Rightarrow> string" where
  "StrJoin [] sep = []"
| "StrJoin [x] sep = x"
| "StrJoin (x # y # ys) sep = x @ sep @ StrJoin (y # ys) sep"

subsection \<open>absl::Status\<close>

datatype StatusCode = kOk | kInvalidArgument

record Status =
  status_code :: StatusCode
  status_message :: string

definition InvalidArgumentError :: "string \<Rightarrow> Status" where
  "InvalidArgumentError msg = \<lparr>status_code = kInvalidArgument, status_message = msg\<rparr>"

subsection \<open>ValidationErrors\<close>

text \<open>
  Modelled from the spec: the class \<^verbatim>\<open>ValidationErrors\<close>
  (\<^verbatim>\<open>src/core/lib/gprpp/validation_errors.h\<close>) is used by the parser but is not among the
  sources. The spec gives it an ordered stack of path segments (the current scope) and a
  mapping from the fully-qualified field path to the list of its error messages;
  \<^verbatim>\<open>AddError\<close> appends the message under the concatenation of all active segments;
  \<^verbatim>\<open>size()\<close> is the total error count; \<^verbatim>\<open>ok()\<close> holds iff no error was recorded;
  \<^verbatim>\<open>status(prefix)\<close> renders the prefix, then \<^verbatim>\<open>[...]\<close> around the fields sorted by path, each
  \<^verbatim>\<open>field:<path> error:<messages joined by ", ">\<close>, joined by \<^verbatim>\<open>"; "\<close>.
  The tests under \<^verbatim>\<open>test/core/xds\<close> fix what the spec leaves open: the prefix is followed by
  \<^verbatim>\<open>": ["\<close>, the status code is \<^verbatim>\<open>InvalidArgument\<close>, and a segment pushed on an empty stack
  loses its leading dot (\<^verbatim>\<open>field:seconds\<close> at top level,
  \<^verbatim>\<open>field:outlier_detection.interval.seconds\<close> when nested).
  The mapping is an association list with one entry per path, in the order in which the
  paths first got an error; it is sorted when it is rendered.
\<close>

record ValidationErrors =
  field_stack :: "string list"
  field_errors :: "(string \<times> string list) list"

text \<open>
  Modelled from the spec: \<^verbatim>\<open>ScopedField\<close> pushes a path segment on construction
  (\<open>PushField\<close>) and pops it on every exit path (\<open>PopField\<close>). \<open>ConsumePrefix_dot\<close> is the
  dropping of the leading dot of a top-level segment that the tests' expected paths show.
\<close>

definition ConsumePrefix_dot :: "string \<Rightarrow> string" where
  "ConsumePrefix_dot ext = (case ext of [] \<Rightarrow> [] | c # cs \<Rightarrow> if c = CHR ''.'' then cs else ext)"

definition PushField :: "string \<Rightarrow> ValidationErrors \<Rightarrow> ValidationErrors" where
  "PushField ext errors =
     errors\<lparr>field_stack := field_stack errors @ [if field_stack errors = [] then ConsumePrefix_dot ext else ext]\<rparr>"

definition PopField :: "ValidationErrors \<Rightarrow> ValidationErrors" where
  "PopField errors = errors\<lparr>field_stack := butlast (field_stack errors)\<rparr>"

text \<open>
  Modelled from the spec: \<^verbatim>\<open>AddError(message)\<close> appends the message under the concatenation
  of all currently active scopes.
\<close>

fun add_message :: "string \<Rightarrow> string \<Rightarrow> (string \<times> string list) list \<Rightarrow> (string \<times> string list) list" where
  "add_message k m [] = [(k, [m])]"
| "add_message k m ((k', ms) # rest) =
     (if k' = k then (k', ms @ [m]) # rest else (k', ms) # add_message k m rest)"

definition AddError :: "string \<Rightarrow> ValidationErrors \<Rightarrow> ValidationErrors" where
  "AddError msg errors =
     errors\<lparr>field_errors := add_message (concat (field_stack errors)) msg (field_errors errors)\<rparr>"

text \<open>
  Modelled from the spec: \<^verbatim>\<open>size()\<close> returns the total error count, and \<^verbatim>\<open>ok()\<close> is true iff
  no errors were recorded.
\<close>

definition size_errors :: "ValidationErrors \<Rightarrow> nat" where
  "size_errors errors = sum_list (map (\<lambda>p. length (snd p)) (field_errors errors))"

definition ok :: "ValidationErrors \<Rightarrow> bool" where
  "ok errors = (field_errors errors = [])"

text \<open>
  Modelled from the spec: \<^verbatim>\<open>status(prefix)\<close> renders the prefix, then all field paths with at
  least one error, sorted lexicographically by path, each as
  \<^verbatim>\<open>field:<path> error:<messages joined by ", ">\<close>, joined by \<^verbatim>\<open>"; "\<close> and wrapped in
  \<^verbatim>\<open>[...]\<close>. The spec does not say what \<^verbatim>\<open>status\<close> returns when no error was recorded; the
  parser calls it only when \<^verbatim>\<open>ok()\<close> is false, and the model renders the same way in both
  cases.
\<close>

definition render_field :: "string \<times> string list \<Rightarrow> string" where
  "render_field p = ''field:'' @ fst p @ '' error:'' @ StrJoin (snd p) '', ''"

definition status :: "ValidationErrors \<Rightarrow> string \<Rightarrow> Status" where
  "status errors prefix =
     InvalidArgumentError
       (prefix @ '': ['' @ StrJoin (map render_field (sort_key fst (field_errors errors))) ''; '' @ '']'')"

text \<open>The messages recorded under one field path.\<close>

definition messages_at :: "string \<Rightarrow> ValidationErrors \<Rightarrow> string list" where
  "messages_at path errors = (case map_of (field_errors errors) path of None \<Rightarrow> [] | Some ms \<Rightarrow> ms)"

text \<open>A freshly constructed \<^verbatim>\<open>ValidationErrors\<close>: no active scope, no error.\<close>

definition empty_errors :: ValidationErrors where
  "empty_errors = \<lparr>field_stack = [], field_errors = []\<rparr>"

subsection \<open>Decoded wire messages\<close>

text \<open>
  The upb message structs and their enum constants come from generated headers that are not
  among the sources; the fields below are the accessors the parser calls. The enum values are
  those of the envoy protos: \<^verbatim>\<open>HealthStatus\<close> \<^verbatim>\<open>UNKNOWN = 0\<close>, \<^verbatim>\<open>HEALTHY = 1\<close>;
  \<^verbatim>\<open>FractionalPercent.DenominatorType\<close> \<^verbatim>\<open>HUNDRED = 0\<close>, \<^verbatim>\<open>TEN_THOUSAND = 1\<close>, \<^verbatim>\<open>MILLION = 2\<close>.
  An enum field is an open \<^verbatim>\<open>int32\<close> on the wire, hence \<^typ>\<open>int\<close>.
\<close>

definition envoy_config_core_v3_UNKNOWN :: int where "envoy_config_core_v3_UNKNOWN = 0"
definition envoy_config_core_v3_HEALTHY :: int where "envoy_config_core_v3_HEALTHY = 1"

definition envoy_type_v3_FractionalPercent_HUNDRED :: int where
  "envoy_type_v3_FractionalPercent_HUNDRED = 0"
definition envoy_type_v3_FractionalPercent_TEN_THOUSAND :: int where
  "envoy_type_v3_FractionalPercent_TEN_THOUSAND = 1"
definition envoy_type_v3_FractionalPercent_MILLION :: int where
  "envoy_type_v3_FractionalPercent_MILLION = 2"

record SocketAddress =
  SocketAddress_address :: string
  SocketAddress_port_value :: "32 word"

record Address =
  Address_socket_address :: "SocketAddress option"

record Endpoint =
  Endpoint_address :: "Address option"

record LbEndpoint =
  LbEndpoint_health_status :: int
  LbEndpoint_load_balancing_weight :: "32 word option"
  LbEndpoint_endpoint :: "Endpoint option"

record core_Locality =
  Locality_region :: string
  Locality_zone :: string
  Locality_sub_zone :: string

record LocalityLbEndpoints =
  LocalityLbEndpoints_load_balancing_weight :: "32 word option"
  LocalityLbEndpoints_locality :: "core_Locality option"
  LocalityLbEndpoints_lb_endpoints :: "LbEndpoint list"
  LocalityLbEndpoints_priority :: "32 word"

record FractionalPercent =
  FractionalPercent_numerator :: "32 word"
  FractionalPercent_denominator :: int

record DropOverload =
  DropOverload_category :: string
  DropOverload_drop_percentage :: "FractionalPercent option"

record Policy =
  Policy_drop_overloads :: "DropOverload list"

record ClusterLoadAssignment =
  ClusterLoadAssignment_cluster_name :: string
  ClusterLoadAssignment_endpoints :: "LocalityLbEndpoints list"
  ClusterLoadAssignment_policy :: "Policy option"

subsection \<open>XdsEndpointResource\<close>

text \<open>
  \<^verbatim>\<open>grpc_resolved_address\<close> is the socket address bytes. A \<^verbatim>\<open>ServerAddress\<close> built after
  \<^verbatim>\<open>StringToSockaddr\<close> failed holds an address that was never assigned: \<open>None\<close>. Its attribute
  map has the single weight attribute. The locality map of a priority is a \<^verbatim>\<open>std::map\<close> keyed
  by the value of the locality name; here an association list with one entry per name, in
  insertion order (the parser never iterates over it). \<^verbatim>\<open>DropConfig\<close> is its category list;
  its drop-all flag is maintained by \<^verbatim>\<open>AddCategory\<close>, which is not among the sources, and is
  not modelled.
\<close>

type_synonym grpc_resolved_address = string

record XdsLocalityName =
  region :: string
  zone :: string
  sub_zone :: string

record ServerAddress =
  address :: "grpc_resolved_address option"
  weight :: "32 word"

record Locality =
  name :: XdsLocalityName
  lb_weight :: "32 word"
  endpoints :: "ServerAddress list"

record Priority =
  localities :: "(XdsLocalityName \<times> Locality) list"

record DropCategory =
  DropCategory_name :: string
  parts_per_million :: "32 word"

record DropConfig =
  drop_category_list :: "DropCategory list"

record XdsEndpointResource =
  priorities :: "Priority list"
  drop_config :: DropConfig

record ParsedLocality =
  priority :: nat
  locality :: Locality

record DecodeResult =
  DecodeResult_name :: "string option"
  resource :: "Status + XdsEndpointResource"

text \<open>
  Modelled from the spec: \<^verbatim>\<open>DropConfig::AddCategory\<close> is declared in \<^verbatim>\<open>xds_endpoint.h\<close>, which
  is not among the sources; by the spec it appends \<open>{category, ppm}\<close> to the list.
\<close>

definition AddCategory :: "string \<Rightarrow> 32 word \<Rightarrow> DropConfig \<Rightarrow> DropConfig" where
  "AddCategory nm ppm config =
     config\<lparr>drop_category_list :=
       drop_category_list config @ [\<lparr>DropCategory_name = nm, parts_per_million = ppm\<rparr>]\<rparr>"

subsection \<open>DropConfig::ShouldDrop\<close>



subsection \<open>ServerAddressParse\<close>

text \<open>
  \<^verbatim>\<open>StringToSockaddr\<close> (\<^verbatim>\<open>src/core/lib/address_utils/parse_address.h\<close>) is a parameter: it
  returns the address or the message of a failure status. Each \<^verbatim>\<open>ScopedField\<close> of the source
  is a \<open>PushField\<close> with a \<open>PopField\<close> on every path that leaves its block.
\<close>

definition ServerAddressParse_weight :: "LbEndpoint \<Rightarrow> ValidationErrors \<Rightarrow> 32 word \<times> ValidationErrors" where
  "ServerAddressParse_weight lb_endpoint errors =
     (let errors1 = PushField ''.load_balancing_weight'' errors in
      case LbEndpoint_load_balancing_weight lb_endpoint of
        None \<Rightarrow> (1, PopField errors1)
      | Some w \<Rightarrow>
          (w, PopField (if w = 0 then AddError ''must be greater than 0'' errors1 else errors1)))"

definition ServerAddressParse_endpoint ::
  "(string \<Rightarrow> 32 word \<Rightarrow> string + grpc_resolved_address) \<Rightarrow> LbEndpoint \<Rightarrow> 32 word \<Rightarrow>
     ValidationErrors \<Rightarrow> ServerAddress option \<times> ValidationErrors" where
  "ServerAddressParse_endpoint StringToSockaddr lb_endpoint w errors =
     (let errors1 = PushField ''.endpoint'' errors in
      case LbEndpoint_endpoint lb_endpoint of
        None \<Rightarrow> (None, PopField (AddError ''field not present'' errors1))
      | Some endpoint \<Rightarrow>
          let errors2 = PushField ''.address'' errors1 in
          case Endpoint_address endpoint of
            None \<Rightarrow> (None, PopField (PopField (AddError ''field not present'' errors2)))
          | Some addr \<Rightarrow>
              let errors3 = PushField ''.socket_address'' errors2 in
              case Address_socket_address addr of
                None \<Rightarrow>
                  (None, PopField (PopField (PopField (AddError ''field not present'' errors3))))
              | Some socket_address \<Rightarrow>
                  let address_str = SocketAddress_address socket_address;
                      port = SocketAddress_port_value socket_address;
                      errors4 = PushField ''.port_value'' errors3
                  in if drop_bit 16 port \<noteq> 0
                     then (None, PopField (PopField (PopField (PopField
                                   (AddError ''invalid port'' errors4)))))
                     else
                       let errors5 = PopField errors4 in
                       case StringToSockaddr address_str port of
                         Inl msg \<Rightarrow>
                           (Some \<lparr>address = None, weight = w\<rparr>,
                            PopField (PopField (PopField (AddError msg errors5))))
                       | Inr a \<Rightarrow>
                           (Some \<lparr>address = Some a, weight = w\<rparr>,
                            PopField (PopField (PopField errors5))))"

definition ServerAddressParse ::
  "(string \<Rightarrow> 32 word \<Rightarrow> string + grpc_resolved_address) \<Rightarrow> LbEndpoint \<Rightarrow>
     ValidationErrors \<Rightarrow> ServerAddress option \<times> ValidationErrors" where
  "ServerAddressParse StringToSockaddr lb_endpoint errors =
     (if LbEndpoint_health_status lb_endpoint \<noteq> envoy_config_core_v3_UNKNOWN \<and>
         LbEndpoint_health_status lb_endpoint \<noteq> envoy_config_core_v3_HEALTHY
      then (None, errors)
      else
        let (w, errors1) = ServerAddressParse_weight lb_endpoint errors
        in ServerAddressParse_endpoint StringToSockaddr lb_endpoint w errors1)"

subsection \<open>LocalityParse\<close>

text \<open>The loop over \<^verbatim>\<open>lb_endpoints\<close>, from index \<open>i\<close>, appending to the endpoints parsed so far.\<close>

fun LocalityParse_lb_endpoints ::
  "(string \<Rightarrow> 32 word \<Rightarrow> string + grpc_resolved_address) \<Rightarrow> LbEndpoint list \<Rightarrow> nat \<Rightarrow>
     ServerAddress list \<Rightarrow> ValidationErrors \<Rightarrow> ServerAddress list \<times> ValidationErrors" where
  "LocalityParse_lb_endpoints StringToSockaddr [] i eps errors = (eps, errors)"
| "LocalityParse_lb_endpoints StringToSockaddr (lb_endpoint # rest) i eps errors =
     (let errors1 = PushField (''.lb_endpoints['' @ StrCat_nat i @ '']'') errors;
          (a, errors2) = ServerAddressParse StringToSockaddr lb_endpoint errors1;
          errors3 = PopField errors2
      in LocalityParse_lb_endpoints StringToSockaddr rest (Suc i)
           (case a of None \<Rightarrow> eps | Some s \<Rightarrow> eps @ [s]) errors3)"

definition LocalityParse ::
  "(string \<Rightarrow> 32 word \<Rightarrow> string + grpc_resolved_address) \<Rightarrow> LocalityLbEndpoints \<Rightarrow>
     ValidationErrors \<Rightarrow> ParsedLocality option \<times> ValidationErrors" where
  "LocalityParse StringToSockaddr locality_lb_endpoints errors =
     (let original_error_size = size_errors errors;
          w = (case LocalityLbEndpoints_load_balancing_weight locality_lb_endpoints of
                 None \<Rightarrow> 0 | Some v \<Rightarrow> v)
      in if w = 0 then (None, errors)
         else
           case LocalityLbEndpoints_locality locality_lb_endpoints of
             None \<Rightarrow> (None, PopField (AddError ''field not present'' (PushField ''.locality'' errors)))
           | Some l \<Rightarrow>
               let nm = \<lparr>region = Locality_region l, zone = Locality_zone l,
                         sub_zone = Locality_sub_zone l\<rparr>;
                   (eps, errors1) =
                     LocalityParse_lb_endpoints StringToSockaddr
                       (LocalityLbEndpoints_lb_endpoints locality_lb_endpoints) 0 [] errors;
                   p = unat (LocalityLbEndpoints_priority locality_lb_endpoints)
               in if original_error_size \<noteq> size_errors errors1 then (None, errors1)
                  else (Some \<lparr>priority = p,
                               locality = \<lparr>name = nm, lb_weight = w, endpoints = eps\<rparr>\<rparr>,
                        errors1))"

subsection \<open>DropParseAndAppend\<close>

definition DropParseAndAppend ::
  "DropOverload \<Rightarrow> DropConfig \<Rightarrow> ValidationErrors \<Rightarrow> DropConfig \<times> ValidationErrors" where
  "DropParseAndAppend drop_overload config errors =
     (let category = DropOverload_category drop_overload;
          errors1 = (if category = []
                     then PopField (AddError ''empty drop category name''
                                      (PushField ''.category'' errors))
                     else errors);
          errors2 = PushField ''.drop_percentage'' errors1
      in case DropOverload_drop_percentage drop_overload of
           None \<Rightarrow> (config, PopField (AddError ''field not present'' errors2))
         | Some drop_percentage \<Rightarrow>
             let numerator = FractionalPercent_numerator drop_percentage;
                 errors3 = PushField ''.denominator'' errors2;
                 denominator = FractionalPercent_denominator drop_percentage;
                 (numerator1, errors4) =
                   (if denominator = envoy_type_v3_FractionalPercent_HUNDRED
                    then (numerator * 10000, errors3)
                    else if denominator = envoy_type_v3_FractionalPercent_TEN_THOUSAND
                    then (numerator * 100, errors3)
                    else if denominator = envoy_type_v3_FractionalPercent_MILLION
                    then (numerator, errors3)
                    else (numerator, AddError ''unknown denominator type'' errors3));
                 errors5 = PopField errors4;
                 numerator2 = min numerator1 1000000;
                 errors6 = PopField errors5
             in (AddCategory category numerator2 config, errors6))"

subsection \<open>EdsResourceParse\<close>

text \<open>
  \<^verbatim>\<open>AsHumanReadableString\<close> of a locality name (\<^verbatim>\<open>xds_client_stats.h\<close>) is a parameter.
  \<^verbatim>\<open>resize\<close> appends empty priorities. The body of the first loop, for the entry at index \<open>i\<close>;
  its \<^verbatim>\<open>GPR_ASSERT\<close> on the weight cannot fail (lemma \<open>LocalityParse_lb_weight\<close> below).
\<close>

definition resize :: "Priority list \<Rightarrow> nat \<Rightarrow> Priority list" where
  "resize ps n = take n ps @ replicate (n - length ps) \<lparr>localities = []\<rparr>"

definition EdsResourceParse_locality ::
  "(string \<Rightarrow> 32 word \<Rightarrow> string + grpc_resolved_address) \<Rightarrow> (XdsLocalityName \<Rightarrow> string) \<Rightarrow>
     nat \<Rightarrow> LocalityLbEndpoints \<Rightarrow> Priority list \<times> ValidationErrors \<Rightarrow>
     Priority list \<times> ValidationErrors" where
  "EdsResourceParse_locality StringToSockaddr AsHumanReadableString i entry st =
     (let ps = fst st;
          errors1 = PushField (''['' @ StrCat_nat i @ '']'') (snd st);
          (parsed_locality, errors2) = LocalityParse StringToSockaddr entry errors1
      in case parsed_locality of
           None \<Rightarrow> (ps, PopField errors2)
         | Some pl \<Rightarrow>
             let ps1 = (if length ps < priority pl + 1 then resize ps (priority pl + 1) else ps);
                 locality_map = localities (ps1 ! priority pl)
             in case map_of locality_map (name (locality pl)) of
                  Some found \<Rightarrow>
                    (ps1, PopField (AddError
                            (''duplicate locality '' @ AsHumanReadableString (name (locality pl)) @
                             '' found in priority '' @ StrCat_nat (priority pl)) errors2))
                | None \<Rightarrow>
                    (ps1[priority pl :=
                           \<lparr>localities = locality_map @ [(name (locality pl), locality pl)]\<rparr>],
                     PopField errors2))"

fun EdsResourceParse_endpoints ::
  "(string \<Rightarrow> 32 word \<Rightarrow> string + grpc_resolved_address) \<Rightarrow> (XdsLocalityName \<Rightarrow> string) \<Rightarrow>
     LocalityLbEndpoints list \<Rightarrow> nat \<Rightarrow> Priority list \<times> ValidationErrors \<Rightarrow>
     Priority list \<times> ValidationErrors" where
  "EdsResourceParse_endpoints StringToSockaddr AsHumanReadableString [] i st = st"
| "EdsResourceParse_endpoints StringToSockaddr AsHumanReadableString (entry # rest) i st =
     EdsResourceParse_endpoints StringToSockaddr AsHumanReadableString rest (Suc i)
       (EdsResourceParse_locality StringToSockaddr AsHumanReadableString i entry st)"

text \<open>The second loop: the priorities from index \<open>i\<close> on.\<close>

fun EdsResourceParse_empty :: "Priority list \<Rightarrow> nat \<Rightarrow> ValidationErrors \<Rightarrow> ValidationErrors" where
  "EdsResourceParse_empty [] i errors = errors"
| "EdsResourceParse_empty (p # rest) i errors =
     EdsResourceParse_empty rest (Suc i)
       (if localities p = [] then AddError (''priority '' @ StrCat_nat i @ '' empty'') errors
        else errors)"

fun EdsResourceParse_drop_overloads ::
  "DropOverload list \<Rightarrow> nat \<Rightarrow> DropConfig \<times> ValidationErrors \<Rightarrow> DropConfig \<times> ValidationErrors" where
  "EdsResourceParse_drop_overloads [] i st = st"
| "EdsResourceParse_drop_overloads (drop_overload # rest) i st =
     (let errors1 = PushField (''.drop_overloads['' @ StrCat_nat i @ '']'') (snd st);
          (dc, errors2) = DropParseAndAppend drop_overload (fst st) errors1
      in EdsResourceParse_drop_overloads rest (Suc i) (dc, PopField errors2))"

text \<open>The body of \<^verbatim>\<open>EdsResourceParse\<close> up to its final test: the resource built and the errors.\<close>

definition EdsResourceParse_run ::
  "(string \<Rightarrow> 32 word \<Rightarrow> string + grpc_resolved_address) \<Rightarrow> (XdsLocalityName \<Rightarrow> string) \<Rightarrow>
     ClusterLoadAssignment \<Rightarrow> XdsEndpointResource \<times> ValidationErrors" where
  "EdsResourceParse_run StringToSockaddr AsHumanReadableString cluster_load_assignment =
     (let errors1 = PushField ''endpoints'' empty_errors;
          (ps, errors2) =
            EdsResourceParse_endpoints StringToSockaddr AsHumanReadableString
              (ClusterLoadAssignment_endpoints cluster_load_assignment) 0 ([], errors1);
          errors3 = EdsResourceParse_empty ps 0 errors2;
          errors4 = PopField errors3;
          dc0 = \<lparr>drop_category_list = []\<rparr>;
          (dc, errors5) =
            (case ClusterLoadAssignment_policy cluster_load_assignment of
               None \<Rightarrow> (dc0, errors4)
             | Some policy \<Rightarrow>
                 let r = EdsResourceParse_drop_overloads (Policy_drop_overloads policy) 0
                           (dc0, PushField ''policy'' errors4)
                 in (fst r, PopField (snd r)))
      in (\<lparr>priorities = ps, drop_config = dc\<rparr>, errors5))"

definition EdsResourceParse ::
  "(string \<Rightarrow> 32 word \<Rightarrow> string + grpc_resolved_address) \<Rightarrow> (XdsLocalityName \<Rightarrow> string) \<Rightarrow>
     ClusterLoadAssignment \<Rightarrow> Status + XdsEndpointResource" where
  "EdsResourceParse StringToSockaddr AsHumanReadableString cluster_load_assignment =
     (let (eds_resource, errors) =
            EdsResourceParse_run StringToSockaddr AsHumanReadableString cluster_load_assignment
      in if \<not> ok errors then Inl (status errors ''errors parsing EDS resource'')
         else Inr eds_resource)"

subsection \<open>XdsEndpointResourceType::Decode\<close>

text \<open>
  The upb wire parser \<^verbatim>\<open>envoy_config_endpoint_v3_ClusterLoadAssignment_parse\<close> is a parameter:
  \<open>None\<close> is its null result. Logging does not change the result and is left out.
\<close>

definition Decode ::
  "(string \<Rightarrow> ClusterLoadAssignment option) \<Rightarrow>
     (string \<Rightarrow> 32 word \<Rightarrow> string + grpc_resolved_address) \<Rightarrow> (XdsLocalityName \<Rightarrow> string) \<Rightarrow>
     string \<Rightarrow> DecodeResult" where
  "Decode ClusterLoadAssignment_parse StringToSockaddr AsHumanReadableString serialized_resource =
     (case ClusterLoadAssignment_parse serialized_resource of
        None \<Rightarrow>
          \<lparr>DecodeResult_name = None,
           resource = Inl (InvalidArgumentError ''Can't parse ClusterLoadAssignment resource.'')\<rparr>
      | Some r \<Rightarrow>
          \<lparr>DecodeResult_name = Some (ClusterLoadAssignment_cluster_name r),
           resource = EdsResourceParse StringToSockaddr AsHumanReadableString r\<rparr>)"

subsection \<open>ParseDuration\<close>

text \<open>
  Modelled from the spec: \<^verbatim>\<open>ParseDuration\<close> (\<^verbatim>\<open>xds_common_types.cc\<close>) is not among the sources,
  only its tests are. By the spec, seconds must be in \<open>[0, 315576000000]\<close> and nanos in
  \<open>[0, 999999999]\<close>, each violation is a field error of its own, and the result is
  \<open>seconds * 1000 + nanos / 1000000\<close> milliseconds when valid. The field names and messages are
  those the tests expect. The spec gives no result for invalid input; the model applies the
  same formula there.
\<close>

record google_protobuf_Duration =
  Duration_seconds :: int
  Duration_nanos :: int

definition ParseDuration :: "google_protobuf_Duration \<Rightarrow> ValidationErrors \<Rightarrow> int \<times> ValidationErrors" where
  "ParseDuration proto_duration errors =
     (let seconds = Duration_seconds proto_duration;
          errors1 = (if seconds < 0 \<or> seconds > 315576000000
                     then PopField (AddError ''value must be in the range [0, 315576000000]''
                                      (PushField ''.seconds'' errors))
                     else errors);
          nanos = Duration_nanos proto_duration;
          errors2 = (if nanos < 0 \<or> nanos > 999999999
                     then PopField (AddError ''value must be in the range [0, 999999999]''
                                      (PushField ''.nanos'' errors1))
                     else errors1)
      in (seconds * 1000 + nanos div 1000000, errors2))"

subsection \<open>Example inputs\<close>

text \<open>
  Concrete inputs on which the theorems below are instantiated: an address parser that rejects
  the empty host, a locality entry of weight 1 with one healthy endpoint, and a
  \<^verbatim>\<open>ClusterLoadAssignment\<close> named \<^verbatim>\<open>foo\<close> without a policy. The region of a locality name
  stands for its human-readable string.
\<close>

definition example_StringToSockaddr :: "string \<Rightarrow> 32 word \<Rightarrow> string + grpc_resolved_address" where
  "example_StringToSockaddr a p = (if a = [] then Inl ''empty address'' else Inr a)"

definition example_endpoint :: "int \<Rightarrow> LbEndpoint" where
  "example_endpoint health =
     \<lparr>LbEndpoint_health_status = health, LbEndpoint_load_balancing_weight = None,
      LbEndpoint_endpoint =
        Some \<lparr>Endpoint_address =
          Some \<lparr>Address_socket_address =
            Some \<lparr>SocketAddress_address = ''10.0.0.1'', SocketAddress_port_value = 443\<rparr>\<rparr>\<rparr>\<rparr>"

definition example_entry :: "string \<Rightarrow> 32 word \<Rightarrow> LocalityLbEndpoints" where
  "example_entry r p =
     \<lparr>LocalityLbEndpoints_load_balancing_weight = Some 1,
      LocalityLbEndpoints_locality =
        Some \<lparr>Locality_region = r, Locality_zone = ''z'', Locality_sub_zone = ''s''\<rparr>,
      LocalityLbEndpoints_lb_endpoints = [example_endpoint 1],
      LocalityLbEndpoints_priority = p\<rparr>"

definition example_cla :: "LocalityLbEndpoints list \<Rightarrow> ClusterLoadAssignment" where
  "example_cla entries =
     \<lparr>ClusterLoadAssignment_cluster_name = ''foo'',
      ClusterLoadAssignment_endpoints = entries,
      ClusterLoadAssignment_policy = None\<rparr>"

subsection \<open>Growth of the error map\<close>

text \<open>
  \<open>grows a b\<close>: the error map \<open>b\<close> is \<open>a\<close> after recording zero or more further messages.
  Every parsing function only ever records; none removes an error.
\<close>

inductive grows :: "(string \<times> string list) list \<Rightarrow> (string \<times> string list) list \<Rightarrow> bool" where
  grows_refl: "grows a a"
| grows_add: "grows a b \<Longrightarrow> grows a (add_message k m b)"


section \<open>Auxiliary lemmas\<close>

lemma PopField_PushField [simp]: "PopField (PushField ext errors) = errors"
  by (simp add: PopField_def PushField_def)

lemma DropParseAndAppend_capped: "DropParseAndAppend d config errors = (config', errors') \<Longrightarrow>
  \<forall>c \<in> set (drop_category_list config). parts_per_million c \<le> 1000000 \<Longrightarrow>
  \<forall>c \<in> set (drop_category_list config'). parts_per_million c \<le> 1000000"
  by (auto simp: DropParseAndAppend_def Let_def AddCategory_def split: option.splits if_splits)




lemma grows_trans: "grows b c \<Longrightarrow> grows a b \<Longrightarrow> grows a c"
  by (induction rule: grows.induct) (auto intro: grows.intros)

lemma add_message_not_Nil [simp]: "add_message k m fe \<noteq> []"
  by (cases fe) (auto split: if_splits)

lemma grows_not_Nil: "grows a b \<Longrightarrow> a \<noteq> [] \<Longrightarrow> b \<noteq> []"
  by (induction rule: grows.induct) auto

lemma total_add_message:
  "sum_list (map (\<lambda>p. length (snd p)) (add_message k m fe)) =
   Suc (sum_list (map (\<lambda>p. length (snd p)) fe))"
  by (induction fe) auto

lemma grows_total:
  "grows a b \<Longrightarrow>
     sum_list (map (\<lambda>p. length (snd p)) a) \<le> sum_list (map (\<lambda>p. length (snd p)) b) \<and>
     (sum_list (map (\<lambda>p. length (snd p)) b) = sum_list (map (\<lambda>p. length (snd p)) a) \<longrightarrow> b = a)"
  by (induction rule: grows.induct) (auto simp: total_add_message)

lemma map_of_add_message:
  "map_of (add_message k m fe) k' =
     (if k' = k then Some ((case map_of fe k of None \<Rightarrow> [] | Some ms \<Rightarrow> ms) @ [m]) else map_of fe k')"
  by (induction fe) auto

lemma in_add_message:
  "p \<in> set (add_message k m fe) \<Longrightarrow> p \<in> set fe \<or> (fst p = k \<and> snd p \<noteq> [])"
  by (induction fe) (auto split: if_splits)

lemma distinct_add_message: "distinct (map fst fe) \<Longrightarrow> distinct (map fst (add_message k m fe))"
proof (induction fe)
  case Nil
  then show ?case by simp
next
  case (Cons a fe)
  obtain k' ms where a: "a = (k', ms)" by (cases a)
  show ?case
  proof (cases "k' = k")
    case True
    with Cons.prems a show ?thesis by simp
  next
    case False
    have "k' \<notin> fst ` set (add_message k m fe)"
    proof
      assume "k' \<in> fst ` set (add_message k m fe)"
      then obtain p where p: "p \<in> set (add_message k m fe)" "fst p = k'" by auto
      from in_add_message [OF p(1)] p(2) False have "p \<in> set fe" by auto
      with p(2) Cons.prems a show False by force
    qed
    with Cons a False show ?thesis by simp
  qed
qed

lemma nonempty_add_message:
  "\<forall>p \<in> set fe. snd p \<noteq> [] \<Longrightarrow> \<forall>p \<in> set (add_message k m fe). snd p \<noteq> []"
  by (blast dest: in_add_message)

lemma grows_wf:
  "grows a b \<Longrightarrow> distinct (map fst a) \<and> (\<forall>p \<in> set a. snd p \<noteq> []) \<Longrightarrow>
     distinct (map fst b) \<and> (\<forall>p \<in> set b. snd p \<noteq> [])"
  by (induction rule: grows.induct) (auto simp: distinct_add_message dest: nonempty_add_message)

lemma grows_messages:
  "grows a b \<Longrightarrow> m \<in> set (case map_of a k of None \<Rightarrow> [] | Some ms \<Rightarrow> ms) \<Longrightarrow>
     m \<in> set (case map_of b k of None \<Rightarrow> [] | Some ms \<Rightarrow> ms)"
  by (induction rule: grows.induct) (auto simp: map_of_add_message)

lemma field_errors_PushField [simp]: "field_errors (PushField ext errors) = field_errors errors"
  by (simp add: PushField_def)

lemma field_errors_PopField [simp]: "field_errors (PopField errors) = field_errors errors"
  by (simp add: PopField_def)

lemma field_errors_AddError [simp]:
  "field_errors (AddError msg errors) = add_message (concat (field_stack errors)) msg (field_errors errors)"
  by (simp add: AddError_def)

lemma field_stack_AddError [simp]: "field_stack (AddError msg errors) = field_stack errors"
  by (simp add: AddError_def)

lemma field_stack_PopField [simp]: "field_stack (PopField errors) = butlast (field_stack errors)"
  by (simp add: PopField_def)

lemma butlast_field_stack_PushField [simp]:
  "butlast (field_stack (PushField ext errors)) = field_stack errors"
  by (simp add: PushField_def)

lemma ValidationErrors_eqI:
  "field_stack a = field_stack b \<Longrightarrow> field_errors a = field_errors b \<Longrightarrow> a = (b :: ValidationErrors)"
  by simp

lemma ServerAddressParse_weight_grows:
  "ServerAddressParse_weight lb_endpoint errors = (w, errors') \<Longrightarrow>
     grows (field_errors errors) (field_errors errors') \<and> field_stack errors' = field_stack errors"
  by (auto simp: ServerAddressParse_weight_def Let_def split: option.splits if_splits
      intro!: grows.intros)

lemma ServerAddressParse_endpoint_grows:
  "ServerAddressParse_endpoint s2s lb_endpoint w errors = (a, errors') \<Longrightarrow>
     grows (field_errors errors) (field_errors errors') \<and> field_stack errors' = field_stack errors"
  by (auto simp: ServerAddressParse_endpoint_def Let_def split: option.splits if_splits sum.splits
      intro!: grows.intros)

lemma ServerAddressParse_grows:
  "ServerAddressParse s2s lb_endpoint errors = (a, errors') \<Longrightarrow>
     grows (field_errors errors) (field_errors errors') \<and> field_stack errors' = field_stack errors"
  by (auto simp: ServerAddressParse_def split: if_splits prod.splits
      dest!: ServerAddressParse_weight_grows ServerAddressParse_endpoint_grows
      intro: grows_trans grows.intros)

lemma LocalityParse_lb_endpoints_grows:
  "LocalityParse_lb_endpoints s2s xs i eps errors = (eps', errors') \<Longrightarrow>
     grows (field_errors errors) (field_errors errors') \<and> field_stack errors' = field_stack errors"
proof (induction xs arbitrary: i eps errors)
  case Nil
  then show ?case by (auto intro: grows.intros)
next
  case (Cons x xs)
  obtain a e2 where sa: "ServerAddressParse s2s x (PushField (''.lb_endpoints['' @ StrCat_nat i @ '']'') errors) = (a, e2)"
    by (cases "ServerAddressParse s2s x (PushField (''.lb_endpoints['' @ StrCat_nat i @ '']'') errors)")
  from ServerAddressParse_grows [OF sa]
  have g1: "grows (field_errors errors) (field_errors (PopField e2))"
    and s1: "field_stack (PopField e2) = field_stack errors" by simp_all
  from Cons.prems sa
  have "LocalityParse_lb_endpoints s2s xs (Suc i) (case a of None \<Rightarrow> eps | Some s \<Rightarrow> eps @ [s]) (PopField e2) = (eps', errors')"
    by simp
  from Cons.IH [OF this] g1 s1 show ?case by (auto intro: grows_trans)
qed

lemma grows_size_errors:
  "grows (field_errors a) (field_errors b) \<Longrightarrow> field_stack b = field_stack a \<Longrightarrow>
     size_errors a = size_errors b \<Longrightarrow> b = a"
  using grows_total [of "field_errors a" "field_errors b"]
  by (simp add: size_errors_def ValidationErrors_eqI)

lemma LocalityParse_grows:
  "LocalityParse s2s l errors = (r, errors') \<Longrightarrow>
     grows (field_errors errors) (field_errors errors') \<and> field_stack errors' = field_stack errors"
  by (auto simp: LocalityParse_def Let_def split: option.splits if_splits prod.splits
      dest!: LocalityParse_lb_endpoints_grows intro!: grows.intros)

lemma LocalityParse_Some:
  "LocalityParse s2s l errors = (Some pl, errors') \<Longrightarrow>
     errors' = errors \<and> lb_weight (locality pl) \<noteq> 0 \<and>
     LocalityLbEndpoints_load_balancing_weight l = Some (lb_weight (locality pl)) \<and>
     priority pl = unat (LocalityLbEndpoints_priority l) \<and>
     (\<exists>c. LocalityLbEndpoints_locality l = Some c \<and>
          name (locality pl) = \<lparr>region = Locality_region c, zone = Locality_zone c,
                                  sub_zone = Locality_sub_zone c\<rparr>)"
  by (auto simp: LocalityParse_def Let_def split: option.splits if_splits prod.splits
      dest!: LocalityParse_lb_endpoints_grows dest: grows_size_errors)

lemma DropParseAndAppend_grows:
  "DropParseAndAppend d config errors = (config', errors') \<Longrightarrow>
     grows (field_errors errors) (field_errors errors') \<and> field_stack errors' = field_stack errors"
  by (auto simp: DropParseAndAppend_def Let_def split: option.splits if_splits prod.splits
      intro!: grows.intros)

lemma EdsResourceParse_drop_overloads_grows:
  "EdsResourceParse_drop_overloads ds i st = st' \<Longrightarrow>
     grows (field_errors (snd st)) (field_errors (snd st')) \<and>
     field_stack (snd st') = field_stack (snd st)"
proof (induction ds arbitrary: i st)
  case Nil
  then show ?case by (auto intro: grows.intros)
next
  case (Cons d ds)
  obtain dc e2 where dp: "DropParseAndAppend d (fst st)
      (PushField (''.drop_overloads['' @ StrCat_nat i @ '']'') (snd st)) = (dc, e2)"
    by (cases "DropParseAndAppend d (fst st)
      (PushField (''.drop_overloads['' @ StrCat_nat i @ '']'') (snd st))")
  from DropParseAndAppend_grows [OF dp]
  have g1: "grows (field_errors (snd st)) (field_errors (PopField e2))"
    and s1: "field_stack (PopField e2) = field_stack (snd st)" by simp_all
  from Cons.prems dp
  have "EdsResourceParse_drop_overloads ds (Suc i) (dc, PopField e2) = st'" by simp
  from Cons.IH [OF this] g1 s1 show ?case by (auto intro: grows_trans)
qed

lemma EdsResourceParse_locality_grows:
  "grows (field_errors (snd st)) (field_errors (snd (EdsResourceParse_locality s2s h i entry st))) \<and>
   field_stack (snd (EdsResourceParse_locality s2s h i entry st)) = field_stack (snd st)"
  by (auto simp: EdsResourceParse_locality_def Let_def split: option.splits prod.splits
      dest!: LocalityParse_grows intro!: grows.intros)

lemma EdsResourceParse_endpoints_grows:
  "EdsResourceParse_endpoints s2s h xs i st = st' \<Longrightarrow>
     grows (field_errors (snd st)) (field_errors (snd st')) \<and>
     field_stack (snd st') = field_stack (snd st)"
proof (induction xs arbitrary: i st)
  case Nil
  then show ?case by (auto intro: grows.intros)
next
  case (Cons x xs)
  from Cons.prems
  have "EdsResourceParse_endpoints s2s h xs (Suc i) (EdsResourceParse_locality s2s h i x st) = st'"
    by simp
  from Cons.IH [OF this] EdsResourceParse_locality_grows [where st = st and i = i and entry = x]
  show ?case by (auto intro: grows_trans)
qed

lemma EdsResourceParse_empty_grows:
  "grows (field_errors errors) (field_errors (EdsResourceParse_empty ps i errors)) \<and>
   field_stack (EdsResourceParse_empty ps i errors) = field_stack errors"
proof (induction ps arbitrary: i errors)
  case Nil
  then show ?case by (auto intro: grows.intros)
next
  case (Cons p ps)
  have "grows (field_errors errors)
          (field_errors (if localities p = []
                         then AddError (''priority '' @ StrCat_nat i @ '' empty'') errors
                         else errors))"
    by (auto intro!: grows.intros)
  with Cons.IH [where i = "Suc i" and errors = "if localities p = []
                         then AddError (''priority '' @ StrCat_nat i @ '' empty'') errors
                         else errors"]
  show ?case by (auto intro: grows_trans)
qed


lemma grows_neq_not_Nil: "grows a b \<Longrightarrow> b \<noteq> a \<Longrightarrow> b \<noteq> []"
  by (induction rule: grows.induct) auto

lemma EdsResourceParse_endpoints_append:
  "EdsResourceParse_endpoints s2s h (xs @ ys) i st =
     EdsResourceParse_endpoints s2s h ys (i + length xs) (EdsResourceParse_endpoints s2s h xs i st)"
  by (induction xs arbitrary: i st) auto

lemma length_resize [simp]: "length (resize ps n) = n"
  by (simp add: resize_def)

lemma nth_resize: "p < length ps \<Longrightarrow> length ps < n \<Longrightarrow> resize ps n ! p = ps ! p"
  by (simp add: resize_def nth_append)

lemma nth_resize_new: "length ps \<le> p \<Longrightarrow> p < n \<Longrightarrow> resize ps n ! p = \<lparr>localities = []\<rparr>"
  by (simp add: resize_def nth_append)

lemma concat_field_stack_PushField_index:
  "concat (field_stack (PushField (CHR ''['' # x) errors)) = concat (field_stack errors) @ CHR ''['' # x"
  by (simp add: PushField_def ConsumePrefix_dot_def)

lemma EdsResourceParse_locality_found:
  assumes "LocalityParse s2s entry (PushField (''['' @ StrCat_nat i @ '']'') errors) = (Some pl, errors')"
    and "priority pl < length ps"
    and "map_of (localities (ps ! priority pl)) (name (locality pl)) = Some l0"
  shows "EdsResourceParse_locality s2s h i entry (ps, errors) =
           (ps, errors\<lparr>field_errors :=
                  add_message (concat (field_stack errors) @ ''['' @ StrCat_nat i @ '']'')
                    (''duplicate locality '' @ h (name (locality pl)) @ '' found in priority '' @
                     StrCat_nat (priority pl))
                    (field_errors errors)\<rparr>)"
proof -
  from LocalityParse_Some [OF assms(1)]
  have e: "errors' = PushField (''['' @ StrCat_nat i @ '']'') errors" by simp
  have k: "concat (field_stack (PushField (''['' @ StrCat_nat i @ '']'') errors)) =
           concat (field_stack errors) @ ''['' @ StrCat_nat i @ '']''"
    using concat_field_stack_PushField_index [of "StrCat_nat i @ '']''" errors] by simp
  show ?thesis
    using assms e k
    by (auto simp: EdsResourceParse_locality_def Let_def intro!: ValidationErrors_eqI)
qed

lemma EdsResourceParse_locality_insert:
  assumes "LocalityParse s2s entry (PushField (''['' @ StrCat_nat i @ '']'') errors) = (Some pl, errors')"
    and "priority pl < length ps \<longrightarrow>
           map_of (localities (ps ! priority pl)) (name (locality pl)) = None"
  shows "snd (EdsResourceParse_locality s2s h i entry (ps, errors)) = errors \<and>
         priority pl < length (fst (EdsResourceParse_locality s2s h i entry (ps, errors))) \<and>
         map_of (localities (fst (EdsResourceParse_locality s2s h i entry (ps, errors)) ! priority pl))
           (name (locality pl)) = Some (locality pl)"
proof -
  from LocalityParse_Some [OF assms(1)]
  have e: "errors' = PushField (''['' @ StrCat_nat i @ '']'') errors" by simp
  show ?thesis
  proof (cases "priority pl < length ps")
    case True
    with assms e show ?thesis
      by (auto simp: EdsResourceParse_locality_def Let_def map_add_def)
  next
    case False
    then have "resize ps (Suc (priority pl)) ! priority pl = \<lparr>localities = []\<rparr>"
      by (intro nth_resize_new) auto
    with False assms(1) e show ?thesis
      by (auto simp: EdsResourceParse_locality_def Let_def)
  qed
qed

lemma EdsResourceParse_locality_keeps:
  assumes "p < length ps" and "map_of (localities (ps ! p)) n = Some l0"
  shows "p < length (fst (EdsResourceParse_locality s2s h i entry (ps, errors))) \<and>
         map_of (localities (fst (EdsResourceParse_locality s2s h i entry (ps, errors)) ! p)) n = Some l0"
proof (cases "LocalityParse s2s entry (PushField (''['' @ StrCat_nat i @ '']'') errors)")
  case (Pair r e2)
  show ?thesis
  proof (cases r)
    case None
    with Pair assms show ?thesis by (simp add: EdsResourceParse_locality_def)
  next
    case (Some pl)
    show ?thesis
    proof (cases "length ps < priority pl + 1")
      case True
      then have "resize ps (Suc (priority pl)) ! priority pl = \<lparr>localities = []\<rparr>"
        by (intro nth_resize_new) auto
      moreover from True assms(1) have "resize ps (Suc (priority pl)) ! p = ps ! p"
        by (intro nth_resize) auto
      moreover from True assms(1) have "p \<noteq> priority pl" "p < Suc (priority pl)" by auto
      ultimately show ?thesis
        using Pair Some True assms(2) by (simp add: EdsResourceParse_locality_def Let_def)
    next
      case False
      with Pair Some assms show ?thesis
        by (auto simp: EdsResourceParse_locality_def Let_def nth_list_update map_add_def
            split: option.splits)
    qed
  qed
qed

lemma EdsResourceParse_endpoints_keeps:
  "p < length (fst st) \<Longrightarrow> map_of (localities (fst st ! p)) n = Some l0 \<Longrightarrow>
     p < length (fst (EdsResourceParse_endpoints s2s h xs i st)) \<and>
     map_of (localities (fst (EdsResourceParse_endpoints s2s h xs i st) ! p)) n = Some l0"
proof (induction xs arbitrary: i st)
  case Nil
  then show ?case by simp
next
  case (Cons x xs)
  from EdsResourceParse_locality_keeps [of p "fst st" n l0 s2s h i x "snd st"] Cons.prems
  have "p < length (fst (EdsResourceParse_locality s2s h i x st)) \<and>
        map_of (localities (fst (EdsResourceParse_locality s2s h i x st) ! p)) n = Some l0"
    by simp
  with Cons.IH [of "EdsResourceParse_locality s2s h i x st" "Suc i"] show ?case by simp
qed


lemma EdsResourceParse_run_parts:
  assumes "EdsResourceParse_endpoints s2s h (ClusterLoadAssignment_endpoints cla) 0
             ([], PushField ''endpoints'' empty_errors) = (ps, e2)"
  shows "priorities (fst (EdsResourceParse_run s2s h cla)) = ps"
    and "field_stack e2 = [''endpoints'']"
    and "grows [] (field_errors e2)"
    and "grows (field_errors (EdsResourceParse_empty ps 0 e2))
           (field_errors (snd (EdsResourceParse_run s2s h cla)))"
proof -
  from EdsResourceParse_endpoints_grows [OF assms]
  show "field_stack e2 = [''endpoints'']" and "grows [] (field_errors e2)"
    by (simp_all add: PushField_def empty_errors_def ConsumePrefix_dot_def)
  show "priorities (fst (EdsResourceParse_run s2s h cla)) = ps"
    using assms by (simp add: EdsResourceParse_run_def Let_def split: option.splits)
  show "grows (field_errors (EdsResourceParse_empty ps 0 e2))
           (field_errors (snd (EdsResourceParse_run s2s h cla)))"
  proof (cases "ClusterLoadAssignment_policy cla")
    case None
    with assms show ?thesis
      by (simp add: EdsResourceParse_run_def Let_def grows.intros)
  next
    case (Some policy)
    from EdsResourceParse_drop_overloads_grows [OF refl,
        where ds = "Policy_drop_overloads policy" and i = 0
          and st = "(\<lparr>drop_category_list = []\<rparr>,
                     PushField ''policy'' (PopField (EdsResourceParse_empty ps 0 e2)))"]
    show ?thesis using assms Some
      by (simp add: EdsResourceParse_run_def Let_def)
  qed
qed

lemma EdsResourceParse_run_grows_all:
  "grows [] (field_errors (snd (EdsResourceParse_run s2s h cla)))"
proof -
  obtain ps e2 where r: "EdsResourceParse_endpoints s2s h (ClusterLoadAssignment_endpoints cla) 0
             ([], PushField ''endpoints'' empty_errors) = (ps, e2)"
    by (cases "EdsResourceParse_endpoints s2s h (ClusterLoadAssignment_endpoints cla) 0
             ([], PushField ''endpoints'' empty_errors)")
  from EdsResourceParse_run_parts(3,4) [OF r] EdsResourceParse_empty_grows [of e2 ps 0]
  show ?thesis by (blast intro: grows_trans)
qed

lemma EdsResourceParse_empty_ok:
  "field_errors (EdsResourceParse_empty ps i errors) = [] \<Longrightarrow> \<forall>p \<in> set ps. localities p \<noteq> []"
proof (induction ps arbitrary: i errors)
  case Nil
  then show ?case by simp
next
  case (Cons p ps)
  let ?e = "if localities p = [] then AddError (''priority '' @ StrCat_nat i @ '' empty'') errors
            else errors"
  from Cons.prems have fin: "field_errors (EdsResourceParse_empty ps (Suc i) ?e) = []" by simp
  from EdsResourceParse_empty_grows [of ?e ps "Suc i"] fin
  have "field_errors ?e = []" using grows_not_Nil by fastforce
  then have "localities p \<noteq> []" by (auto split: if_splits)
  with Cons.IH [OF fin] show ?case by simp
qed

lemma grows_messages_at:
  "grows (field_errors a) (field_errors b) \<Longrightarrow> m \<in> set (messages_at k a) \<Longrightarrow>
     m \<in> set (messages_at k b)"
  unfolding messages_at_def by (rule grows_messages)

lemma EdsResourceParse_empty_message:
  "j < length ps \<Longrightarrow> localities (ps ! j) = [] \<Longrightarrow>
     (''priority '' @ StrCat_nat (i + j) @ '' empty'') \<in>
        set (messages_at (concat (field_stack errors)) (EdsResourceParse_empty ps i errors))"
proof (induction ps arbitrary: i j errors)
  case Nil
  then show ?case by simp
next
  case (Cons p ps)
  let ?e = "if localities p = [] then AddError (''priority '' @ StrCat_nat i @ '' empty'') errors
            else errors"
  have st: "field_stack ?e = field_stack errors" by simp
  show ?case
  proof (cases j)
    case 0
    with Cons.prems have m0: "(''priority '' @ StrCat_nat (i + j) @ '' empty'') \<in>
        set (messages_at (concat (field_stack errors)) ?e)"
      by (simp add: messages_at_def map_of_add_message)
    from EdsResourceParse_empty_grows [of ?e ps "Suc i"]
    have "grows (field_errors ?e) (field_errors (EdsResourceParse_empty ps (Suc i) ?e))"
      by blast
    from grows_messages_at [OF this m0] show ?thesis by simp
  next
    case (Suc j')
    with Cons.prems have "j' < length ps" "localities (ps ! j') = []" by simp_all
    from Cons.IH [OF this, of "Suc i" ?e] st Suc show ?thesis by simp
  qed
qed

lemma EdsResourceParse_Inl_iff:
  "(\<exists>st. EdsResourceParse s2s h cla = Inl st) \<longleftrightarrow> \<not> ok (snd (EdsResourceParse_run s2s h cla))"
  by (auto simp: EdsResourceParse_def Let_def split: prod.splits if_splits)

lemma EdsResourceParse_Inr:
  "EdsResourceParse s2s h cla = Inr res \<Longrightarrow>
     res = fst (EdsResourceParse_run s2s h cla) \<and> field_errors (snd (EdsResourceParse_run s2s h cla)) = []"
  by (auto simp: EdsResourceParse_def Let_def ok_def split: prod.splits if_splits)

lemma EdsResourceParse_run_not_ok:
  assumes "EdsResourceParse_endpoints s2s h (ClusterLoadAssignment_endpoints cla) 0
             ([], PushField ''endpoints'' empty_errors) = (ps, e2)"
    and "field_errors e2 \<noteq> []"
  shows "\<not> ok (snd (EdsResourceParse_run s2s h cla))"
proof -
  from EdsResourceParse_empty_grows [of e2 ps 0] assms(2)
  have "field_errors (EdsResourceParse_empty ps 0 e2) \<noteq> []" by (blast dest: grows_not_Nil)
  with EdsResourceParse_run_parts(4) [OF assms(1)] show ?thesis
    unfolding ok_def by (blast dest: grows_not_Nil)
qed


lemma distinct_map_sort_key: "distinct (map f (sort_key f xs)) = distinct (map f xs)"
  by (induction xs) (auto simp: distinct_insort_key)

lemma sort_key_Nil_iff: "sort_key f xs = [] \<longleftrightarrow> xs = []"
  using length_sort [of f xs] by (metis length_0_conv)

lemma EdsResourceParse_endpoints_field_stack:
  "EdsResourceParse_endpoints s2s h xs i ([], PushField ''endpoints'' empty_errors) = (ps, e) \<Longrightarrow>
     field_stack e = [''endpoints'']"
  using EdsResourceParse_endpoints_grows [of s2s h xs i "([], PushField ''endpoints'' empty_errors)" "(ps, e)"]
  by (simp add: PushField_def empty_errors_def ConsumePrefix_dot_def)


lemma unat_min_word: "unat (min a b) = min (unat a) (unat (b :: 32 word))"
  by (simp add: min_def word_le_nat_alt)

lemma unat_scale:
  "unat n * k < 2 ^ 32 \<Longrightarrow> k < 2 ^ 32 \<Longrightarrow> unat ((n :: 32 word) * of_nat k) = unat n * k"
  by (simp add: unat_word_ariths unat_of_nat)

lemma DropParseAndAppend_normalized:
  assumes "DropOverload_drop_percentage d = Some fp"
  shows "\<exists>ppm. fst (DropParseAndAppend d config errors) =
                 AddCategory (DropOverload_category d) ppm config \<and>
           unat ppm \<le> 1000000 \<and>
           (FractionalPercent_denominator fp = envoy_type_v3_FractionalPercent_HUNDRED \<and>
            unat (FractionalPercent_numerator fp) * 10000 < 2 ^ 32 \<longrightarrow>
              unat ppm = min (unat (FractionalPercent_numerator fp) * 10000) 1000000) \<and>
           (FractionalPercent_denominator fp = envoy_type_v3_FractionalPercent_TEN_THOUSAND \<and>
            unat (FractionalPercent_numerator fp) * 100 < 2 ^ 32 \<longrightarrow>
              unat ppm = min (unat (FractionalPercent_numerator fp) * 100) 1000000) \<and>
           (FractionalPercent_denominator fp = envoy_type_v3_FractionalPercent_MILLION \<longrightarrow>
              unat ppm = min (unat (FractionalPercent_numerator fp)) 1000000) \<and>
           (FractionalPercent_denominator fp \<noteq> envoy_type_v3_FractionalPercent_HUNDRED \<and>
            FractionalPercent_denominator fp \<noteq> envoy_type_v3_FractionalPercent_TEN_THOUSAND \<and>
            FractionalPercent_denominator fp \<noteq> envoy_type_v3_FractionalPercent_MILLION \<longrightarrow>
              \<not> ok (snd (DropParseAndAppend d config errors)))"
proof -
  let ?n = "FractionalPercent_numerator fp"
  have h: "unat ?n * 10000 < 2 ^ 32 \<Longrightarrow> unat (?n * 10000) = unat ?n * 10000"
    using unat_scale [of ?n 10000] by simp
  have t: "unat ?n * 100 < 2 ^ 32 \<Longrightarrow> unat (?n * 100) = unat ?n * 100"
    using unat_scale [of ?n 100] by simp
  show ?thesis
    using assms h t
    by (auto simp: DropParseAndAppend_def Let_def unat_min_word ok_def
        envoy_type_v3_FractionalPercent_HUNDRED_def envoy_type_v3_FractionalPercent_TEN_THOUSAND_def
        envoy_type_v3_FractionalPercent_MILLION_def)
qed


section \<open>The claims\<close>

text \<open>
  C2 (percentage normalisation): the claim is that a numerator with denominator \<open>HUNDRED\<close> is
  stored as numerator times 10000, capped at 1000000. The multiplication is done in
  \<^verbatim>\<open>uint32_t\<close> before the cap, so it wraps: numerator 429497 with denominator \<open>HUNDRED\<close> is
  stored as \<open>429497 * 10000 - 2^32 = 2704\<close> parts per million, not as the cap, and no error is
  recorded.
\<close>

theorem DropParseAndAppend_numerator_overflow:
  "DropParseAndAppend
     \<lparr>DropOverload_category = ''lb'',
      DropOverload_drop_percentage =
        Some \<lparr>FractionalPercent_numerator = 429497,
              FractionalPercent_denominator = envoy_type_v3_FractionalPercent_HUNDRED\<rparr>\<rparr>
     \<lparr>drop_category_list = []\<rparr> empty_errors =
   (\<lparr>drop_category_list = [\<lparr>DropCategory_name = ''lb'', parts_per_million = 2704\<rparr>]\<rparr>,
    empty_errors)"
  by (simp add: DropParseAndAppend_def AddCategory_def empty_errors_def PushField_def PopField_def
      ConsumePrefix_dot_def envoy_type_v3_FractionalPercent_HUNDRED_def)

text \<open>
  C8 (denominator scaling): for every \<^verbatim>\<open>uint32_t\<close> numerator \<open>N\<close>, the entry with numerator \<open>N\<close>
  and denominator \<open>HUNDRED\<close> has the same effect as the entry with numerator \<open>100 * N\<close> and
  denominator \<open>TEN_THOUSAND\<close>: the same category list and the same errors. The stored value is
  the \<^verbatim>\<open>uint32_t\<close> product \<open>N * 10000\<close> capped at 1000000 in both. The product \<open>100 * N\<close> is
  itself a \<^verbatim>\<open>uint32_t\<close>, the type of the numerator field.
\<close>

theorem DropParseAndAppend_denominator_scaling:
  "DropParseAndAppend
     \<lparr>DropOverload_category = c,
      DropOverload_drop_percentage =
        Some \<lparr>FractionalPercent_numerator = N,
              FractionalPercent_denominator = envoy_type_v3_FractionalPercent_HUNDRED\<rparr>\<rparr>
     config errors =
   DropParseAndAppend
     \<lparr>DropOverload_category = c,
      DropOverload_drop_percentage =
        Some \<lparr>FractionalPercent_numerator = 100 * N,
              FractionalPercent_denominator = envoy_type_v3_FractionalPercent_TEN_THOUSAND\<rparr>\<rparr>
     config errors \<and>
   drop_category_list (fst (DropParseAndAppend
     \<lparr>DropOverload_category = c,
      DropOverload_drop_percentage =
        Some \<lparr>FractionalPercent_numerator = N,
              FractionalPercent_denominator = envoy_type_v3_FractionalPercent_HUNDRED\<rparr>\<rparr>
     config errors)) =
     drop_category_list config @
       [\<lparr>DropCategory_name = c, parts_per_million = min (N * 10000) 1000000\<rparr>] \<and>
   min (N * 10000) 1000000 \<le> (1000000 :: 32 word)"
  by (simp add: DropParseAndAppend_def Let_def envoy_type_v3_FractionalPercent_HUNDRED_def
      envoy_type_v3_FractionalPercent_TEN_THOUSAND_def mult.commute AddCategory_def)



text \<open>
  C4 (\<^verbatim>\<open>Decode\<close>): when the bytes do not parse as a \<^verbatim>\<open>ClusterLoadAssignment\<close> the result has
  no resource name and the \<^verbatim>\<open>InvalidArgument\<close> status with the fixed message; when they do
  parse, the name is the cluster name of the message, whatever \<^verbatim>\<open>EdsResourceParse\<close> returns,
  and the resource is the result of \<^verbatim>\<open>EdsResourceParse\<close>.
\<close>

theorem Decode_unparseable_and_name:
  "(ClusterLoadAssignment_parse serialized_resource = None \<longrightarrow>
      Decode ClusterLoadAssignment_parse StringToSockaddr AsHumanReadableString serialized_resource =
        \<lparr>DecodeResult_name = None,
         resource = Inl \<lparr>status_code = kInvalidArgument,
                         status_message = ''Can't parse ClusterLoadAssignment resource.''\<rparr>\<rparr>) \<and>
   (ClusterLoadAssignment_parse serialized_resource = Some r \<longrightarrow>
      DecodeResult_name (Decode ClusterLoadAssignment_parse StringToSockaddr AsHumanReadableString
                           serialized_resource) = Some (ClusterLoadAssignment_cluster_name r) \<and>
      resource (Decode ClusterLoadAssignment_parse StringToSockaddr AsHumanReadableString
                  serialized_resource) = EdsResourceParse StringToSockaddr AsHumanReadableString r)"
  by (simp add: Decode_def InvalidArgumentError_def)

theorem Decode_unparseable_and_name_witness:
  "Decode (\<lambda>bs. if bs = [CHR 0x00] then None
                 else Some \<lparr>ClusterLoadAssignment_cluster_name = ''foo'',
                            ClusterLoadAssignment_endpoints = [],
                            ClusterLoadAssignment_policy = None\<rparr>)
     (\<lambda>a p. Inr a) region [CHR 0x00] =
     \<lparr>DecodeResult_name = None,
      resource = Inl \<lparr>status_code = kInvalidArgument,
                      status_message = ''Can't parse ClusterLoadAssignment resource.''\<rparr>\<rparr> \<and>
   DecodeResult_name
     (Decode (\<lambda>bs. if bs = [CHR 0x00] then None
                    else Some \<lparr>ClusterLoadAssignment_cluster_name = ''foo'',
                               ClusterLoadAssignment_endpoints = [],
                               ClusterLoadAssignment_policy = None\<rparr>)
        (\<lambda>a p. Inr a) region ''x'') = Some ''foo''"
  using
    Decode_unparseable_and_name
      [of "\<lambda>bs. if bs = [CHR 0x00] then None
                 else Some \<lparr>ClusterLoadAssignment_cluster_name = ''foo'',
                            ClusterLoadAssignment_endpoints = [],
                            ClusterLoadAssignment_policy = None\<rparr>" "[CHR 0x00]"
          "\<lambda>a p. Inr a" region]
    Decode_unparseable_and_name
      [of "\<lambda>bs. if bs = [CHR 0x00] then None
                 else Some \<lparr>ClusterLoadAssignment_cluster_name = ''foo'',
                            ClusterLoadAssignment_endpoints = [],
                            ClusterLoadAssignment_policy = None\<rparr>" "''x''"
          "\<lambda>a p. Inr a" region
          "\<lparr>ClusterLoadAssignment_cluster_name = ''foo'',
                            ClusterLoadAssignment_endpoints = [],
                            ClusterLoadAssignment_policy = None\<rparr>"]
  by simp

text \<open>
  C9 (\<^verbatim>\<open>ParseDuration\<close>): for seconds in \<open>[0, 315576000000]\<close> and nanos in \<open>[0, 999999999]\<close> no
  error is recorded and the result is \<open>seconds * 1000 + nanos div 1000000\<close> milliseconds. When
  both are out of range two errors are recorded in the one call, one under \<^verbatim>\<open>seconds\<close> and one
  under \<^verbatim>\<open>nanos\<close>; for seconds \<open>-1\<close> and nanos \<open>-2\<close> the rendered status is the string the test
  \<^verbatim>\<open>DurationTest.NegativeNumbers\<close> expects.
\<close>

theorem ParseDuration_range:
  "(0 \<le> Duration_seconds d \<and> Duration_seconds d \<le> 315576000000 \<and>
    0 \<le> Duration_nanos d \<and> Duration_nanos d \<le> 999999999 \<longrightarrow>
      ParseDuration d errors =
        (Duration_seconds d * 1000 + Duration_nanos d div 1000000, errors)) \<and>
   ((Duration_seconds d < 0 \<or> Duration_seconds d > 315576000000) \<and>
    (Duration_nanos d < 0 \<or> Duration_nanos d > 999999999) \<longrightarrow>
      size_errors (snd (ParseDuration d errors)) = size_errors errors + 2 \<and>
      field_errors (snd (ParseDuration d empty_errors)) =
        [(''seconds'', [''value must be in the range [0, 315576000000]'']),
         (''nanos'', [''value must be in the range [0, 999999999]''])]) \<and>
   status_message
     (status (snd (ParseDuration \<lparr>Duration_seconds = - 1, Duration_nanos = - 2\<rparr> empty_errors))
        ''validation failed'') =
     ''validation failed: [field:nanos error:value must be in the range [0, 999999999]; field:seconds error:value must be in the range [0, 315576000000]]''"
proof (intro conjI impI)
  assume "0 \<le> Duration_seconds d \<and> Duration_seconds d \<le> 315576000000 \<and>
    0 \<le> Duration_nanos d \<and> Duration_nanos d \<le> 999999999"
  then show "ParseDuration d errors =
        (Duration_seconds d * 1000 + Duration_nanos d div 1000000, errors)"
    by (simp add: ParseDuration_def Let_def)
next
  assume a: "(Duration_seconds d < 0 \<or> Duration_seconds d > 315576000000) \<and>
    (Duration_nanos d < 0 \<or> Duration_nanos d > 999999999)"
  then show "size_errors (snd (ParseDuration d errors)) = size_errors errors + 2"
    by (simp add: ParseDuration_def Let_def size_errors_def total_add_message)
  from a show "field_errors (snd (ParseDuration d empty_errors)) =
        [(''seconds'', [''value must be in the range [0, 315576000000]'']),
         (''nanos'', [''value must be in the range [0, 999999999]''])]"
    by (simp add: ParseDuration_def Let_def empty_errors_def PushField_def ConsumePrefix_dot_def)
next
  show "status_message
     (status (snd (ParseDuration \<lparr>Duration_seconds = - 1, Duration_nanos = - 2\<rparr> empty_errors))
        ''validation failed'') =
     ''validation failed: [field:nanos error:value must be in the range [0, 999999999]; field:seconds error:value must be in the range [0, 315576000000]]''"
    by (simp add: ParseDuration_def status_def empty_errors_def PushField_def PopField_def
        AddError_def ConsumePrefix_dot_def InvalidArgumentError_def render_field_def)
qed

theorem ParseDuration_range_witness:
  "ParseDuration \<lparr>Duration_seconds = 1, Duration_nanos = 2000000\<rparr> empty_errors =
     (1002, empty_errors) \<and>
   field_errors (snd (ParseDuration \<lparr>Duration_seconds = - 1, Duration_nanos = - 2\<rparr> empty_errors)) =
     [(''seconds'', [''value must be in the range [0, 315576000000]'']),
      (''nanos'', [''value must be in the range [0, 999999999]''])]"
  using ParseDuration_range [of "\<lparr>Duration_seconds = 1, Duration_nanos = 2000000\<rparr>" empty_errors]
    ParseDuration_range [of "\<lparr>Duration_seconds = - 1, Duration_nanos = - 2\<rparr>" empty_errors]
  by simp

text \<open>
  C7 (no empty priority): a resource that \<^verbatim>\<open>EdsResourceParse\<close> returns has no priority with
  an empty locality map, and no error was recorded for it. Whatever the outcome, every index
  \<open>i\<close> of the priorities built whose locality map is empty has the message
  \<^verbatim>\<open>priority i empty\<close> recorded under the field path \<^verbatim>\<open>endpoints\<close>; and when any error was
  recorded the result is a failure status, which carries no resource.
\<close>

theorem EdsResourceParse_no_empty_priority:
  "(EdsResourceParse s2s h cla = Inr res \<longrightarrow>
      ok (snd (EdsResourceParse_run s2s h cla)) \<and> (\<forall>p \<in> set (priorities res). localities p \<noteq> [])) \<and>
   (i < length (priorities (fst (EdsResourceParse_run s2s h cla))) \<and>
    localities (priorities (fst (EdsResourceParse_run s2s h cla)) ! i) = [] \<longrightarrow>
      (''priority '' @ StrCat_nat i @ '' empty'') \<in>
         set (messages_at ''endpoints'' (snd (EdsResourceParse_run s2s h cla)))) \<and>
   (\<not> ok (snd (EdsResourceParse_run s2s h cla)) \<longrightarrow> (\<exists>st. EdsResourceParse s2s h cla = Inl st))"
proof -
  obtain ps e2 where r: "EdsResourceParse_endpoints s2s h (ClusterLoadAssignment_endpoints cla) 0
             ([], PushField ''endpoints'' empty_errors) = (ps, e2)"
    by (cases "EdsResourceParse_endpoints s2s h (ClusterLoadAssignment_endpoints cla) 0
             ([], PushField ''endpoints'' empty_errors)")
  note parts = EdsResourceParse_run_parts [OF r]
  have a: "\<forall>p \<in> set (priorities res). localities p \<noteq> []"
    and a': "ok (snd (EdsResourceParse_run s2s h cla))"
    if "EdsResourceParse s2s h cla = Inr res"
  proof -
    from EdsResourceParse_Inr [OF that]
    have res: "res = fst (EdsResourceParse_run s2s h cla)"
      and fin: "field_errors (snd (EdsResourceParse_run s2s h cla)) = []" by simp_all
    from fin show "ok (snd (EdsResourceParse_run s2s h cla))" by (simp add: ok_def)
    from parts(4) fin have "field_errors (EdsResourceParse_empty ps 0 e2) = []"
      using grows_not_Nil by fastforce
    from EdsResourceParse_empty_ok [OF this] res parts(1)
    show "\<forall>p \<in> set (priorities res). localities p \<noteq> []" by simp
  qed
  have b: "(''priority '' @ StrCat_nat i @ '' empty'') \<in>
         set (messages_at ''endpoints'' (snd (EdsResourceParse_run s2s h cla)))"
    if "i < length (priorities (fst (EdsResourceParse_run s2s h cla)))"
      and "localities (priorities (fst (EdsResourceParse_run s2s h cla)) ! i) = []"
  proof -
    from that parts(1) have "i < length ps" "localities (ps ! i) = []" by simp_all
    from EdsResourceParse_empty_message [OF this, of 0 e2] parts(2)
    have "(''priority '' @ StrCat_nat i @ '' empty'') \<in>
            set (messages_at ''endpoints'' (EdsResourceParse_empty ps 0 e2))" by simp
    from grows_messages_at [OF parts(4) this] show ?thesis .
  qed
  from a a' b EdsResourceParse_Inl_iff [of s2s h cla] show ?thesis by blast
qed

theorem EdsResourceParse_no_empty_priority_witness:
  "EdsResourceParse example_StringToSockaddr region (example_cla [example_entry ''r'' 0]) =
     Inr \<lparr>priorities =
            [\<lparr>localities =
               [(\<lparr>region = ''r'', zone = ''z'', sub_zone = ''s''\<rparr>,
                 \<lparr>name = \<lparr>region = ''r'', zone = ''z'', sub_zone = ''s''\<rparr>, lb_weight = 1,
                  endpoints = [\<lparr>address = Some ''10.0.0.1'', weight = 1\<rparr>]\<rparr>)]\<rparr>],
          drop_config = \<lparr>drop_category_list = []\<rparr>\<rparr> \<and>
   localities
     (priorities (fst (EdsResourceParse_run example_StringToSockaddr region
                         (example_cla [example_entry ''r'' 1]))) ! 0) = [] \<and>
   ''priority 0 empty'' \<in>
     set (messages_at ''endpoints''
            (snd (EdsResourceParse_run example_StringToSockaddr region
                    (example_cla [example_entry ''r'' 1])))) \<and>
   (\<exists>st. EdsResourceParse example_StringToSockaddr region
            (example_cla [example_entry ''r'' 1]) = Inl st)"
proof -
  have good: "EdsResourceParse example_StringToSockaddr region (example_cla [example_entry ''r'' 0]) =
     Inr \<lparr>priorities =
            [\<lparr>localities =
               [(\<lparr>region = ''r'', zone = ''z'', sub_zone = ''s''\<rparr>,
                 \<lparr>name = \<lparr>region = ''r'', zone = ''z'', sub_zone = ''s''\<rparr>, lb_weight = 1,
                  endpoints = [\<lparr>address = Some ''10.0.0.1'', weight = 1\<rparr>]\<rparr>)]\<rparr>],
          drop_config = \<lparr>drop_category_list = []\<rparr>\<rparr>"
    by code_simp
  have len: "0 < length (priorities (fst (EdsResourceParse_run example_StringToSockaddr region
                         (example_cla [example_entry ''r'' 1]))))"
    by code_simp
  have emp: "localities
     (priorities (fst (EdsResourceParse_run example_StringToSockaddr region
                         (example_cla [example_entry ''r'' 1]))) ! 0) = []"
    by code_simp
  have nok: "\<not> ok (snd (EdsResourceParse_run example_StringToSockaddr region
                         (example_cla [example_entry ''r'' 1])))"
    by code_simp
  have z: "StrCat_nat 0 = ''0''" by code_simp
  from EdsResourceParse_no_empty_priority
         [of example_StringToSockaddr region "example_cla [example_entry ''r'' 1]" _ 0]
       len emp nok z good
  show ?thesis by simp
qed

text \<open>
  C1 (aggregated error string), as the claim states it: the failure message of every resource
  type, EDS included, starts with \<^verbatim>\<open>errors validating <Type> resource: \<close>. It does not for EDS:
  a single locality at priority 1 leaves priority 0 empty, and the message starts with
  \<^verbatim>\<open>errors parsing EDS resource: \<close>, the literal prefix \<^verbatim>\<open>EdsResourceParse\<close> passes to
  \<^verbatim>\<open>status\<close>.
\<close>

theorem EdsResourceParse_prefix_counterexample:
  "EdsResourceParse example_StringToSockaddr region (example_cla [example_entry ''r'' 1]) =
     Inl \<lparr>status_code = kInvalidArgument,
          status_message = ''errors parsing EDS resource: [field:endpoints error:priority 0 empty]''\<rparr> \<and>
   take 18 ''errors parsing EDS resource: [field:endpoints error:priority 0 empty]'' \<noteq>
     ''errors validating ''"
  by code_simp

text \<open>
  C1, amended: whenever \<^verbatim>\<open>EdsResourceParse\<close> fails, at least one error was recorded, the status
  is \<^verbatim>\<open>InvalidArgument\<close> and its message is exactly \<^verbatim>\<open>errors parsing EDS resource: [\<close>, then
  the fields with an error in strictly increasing (bytewise lexicographic) order of their
  paths, each rendered \<^verbatim>\<open>field:<path> error:<its messages joined by ", ">\<close> with at least one
  message, joined by \<^verbatim>\<open>"; "\<close>, then \<^verbatim>\<open>]\<close>.
\<close>

theorem EdsResourceParse_failure_message:
  "EdsResourceParse s2s h cla = Inl st \<Longrightarrow>
     \<not> ok (snd (EdsResourceParse_run s2s h cla)) \<and>
     sort_key fst (field_errors (snd (EdsResourceParse_run s2s h cla))) \<noteq> [] \<and>
     sorted_wrt (<) (map fst (sort_key fst (field_errors (snd (EdsResourceParse_run s2s h cla))))) \<and>
     (\<forall>p \<in> set (sort_key fst (field_errors (snd (EdsResourceParse_run s2s h cla)))). snd p \<noteq> []) \<and>
     status_code st = kInvalidArgument \<and>
     status_message st =
       ''errors parsing EDS resource: ['' @
       StrJoin (map (\<lambda>p. ''field:'' @ fst p @ '' error:'' @ StrJoin (snd p) '', '')
                  (sort_key fst (field_errors (snd (EdsResourceParse_run s2s h cla))))) ''; '' @
       '']''"
proof -
  assume inl: "EdsResourceParse s2s h cla = Inl st"
  let ?fe = "field_errors (snd (EdsResourceParse_run s2s h cla))"
  from inl have nok: "\<not> ok (snd (EdsResourceParse_run s2s h cla))"
    using EdsResourceParse_Inl_iff [of s2s h cla] by blast
  then have ne: "sort_key fst ?fe \<noteq> []" by (simp add: ok_def sort_key_Nil_iff)
  from grows_wf [OF EdsResourceParse_run_grows_all [of s2s h cla]]
  have wf: "distinct (map fst ?fe)" "\<forall>p \<in> set ?fe. snd p \<noteq> []" by simp_all
  from wf(1) have srt: "sorted_wrt (<) (map fst (sort_key fst ?fe))"
    by (simp add: strict_sorted_iff distinct_map_sort_key)
  from inl nok have st: "st = status (snd (EdsResourceParse_run s2s h cla)) ''errors parsing EDS resource''"
    by (auto simp: EdsResourceParse_def Let_def split: prod.splits if_splits)
  have rf: "render_field = (\<lambda>p. ''field:'' @ fst p @ '' error:'' @ StrJoin (snd p) '', '')"
    by (rule ext) (simp add: render_field_def)
  from st have "status_code st = kInvalidArgument"
    and "status_message st =
       ''errors parsing EDS resource: ['' @
       StrJoin (map (\<lambda>p. ''field:'' @ fst p @ '' error:'' @ StrJoin (snd p) '', '')
                  (sort_key fst ?fe)) ''; '' @ '']''"
    by (simp_all add: status_def InvalidArgumentError_def rf)
  with nok ne srt wf(2) show ?thesis by simp
qed

theorem EdsResourceParse_failure_message_witness:
  "EdsResourceParse example_StringToSockaddr region
     (example_cla [example_entry ''r'' 2, example_entry ''r'' 2]) =
     Inl \<lparr>status_code = kInvalidArgument,
          status_message = ''errors parsing EDS resource: [field:endpoints error:priority 0 empty, priority 1 empty; field:endpoints[1] error:duplicate locality r found in priority 2]''\<rparr> \<and>
   sorted_wrt (<)
     (map fst (sort_key fst (field_errors (snd (EdsResourceParse_run example_StringToSockaddr region
        (example_cla [example_entry ''r'' 2, example_entry ''r'' 2])))))) \<and>
   ''errors parsing EDS resource: [field:endpoints error:priority 0 empty, priority 1 empty; field:endpoints[1] error:duplicate locality r found in priority 2]'' =
     ''errors parsing EDS resource: ['' @
       StrJoin (map (\<lambda>p. ''field:'' @ fst p @ '' error:'' @ StrJoin (snd p) '', '')
                  (sort_key fst (field_errors (snd (EdsResourceParse_run example_StringToSockaddr region
        (example_cla [example_entry ''r'' 2, example_entry ''r'' 2])))))) ''; '' @
       '']''"
proof -
  have e: "EdsResourceParse example_StringToSockaddr region
     (example_cla [example_entry ''r'' 2, example_entry ''r'' 2]) =
     Inl \<lparr>status_code = kInvalidArgument,
          status_message = ''errors parsing EDS resource: [field:endpoints error:priority 0 empty, priority 1 empty; field:endpoints[1] error:duplicate locality r found in priority 2]''\<rparr>"
    by code_simp
  from EdsResourceParse_failure_message [OF e] e show ?thesis by simp
qed

text \<open>
  C5 (skip, not error): a locality entry whose load-balancing weight is absent or 0 makes
  \<^verbatim>\<open>LocalityParse\<close> return no locality and leave the errors as they were, and the loop body of
  \<^verbatim>\<open>EdsResourceParse\<close> for that entry leaves both the priorities and the errors unchanged. An
  endpoint whose health status is neither \<^verbatim>\<open>UNKNOWN\<close> nor \<^verbatim>\<open>HEALTHY\<close> makes
  \<^verbatim>\<open>ServerAddressParse\<close> return no address and leave the errors as they were, and the loop over
  the endpoints of a locality continues as if the endpoint were not there.
\<close>

theorem zero_weight_and_unhealthy_skipped:
  "((LocalityLbEndpoints_load_balancing_weight entry = None \<or>
     LocalityLbEndpoints_load_balancing_weight entry = Some 0) \<longrightarrow>
      LocalityParse s2s entry errors = (None, errors) \<and>
      EdsResourceParse_locality s2s h i entry st = st) \<and>
   (LbEndpoint_health_status lb_endpoint \<noteq> envoy_config_core_v3_UNKNOWN \<and>
    LbEndpoint_health_status lb_endpoint \<noteq> envoy_config_core_v3_HEALTHY \<longrightarrow>
      ServerAddressParse s2s lb_endpoint errors = (None, errors) \<and>
      LocalityParse_lb_endpoints s2s (lb_endpoint # rest) j eps errors =
        LocalityParse_lb_endpoints s2s rest (Suc j) eps errors)"
proof (intro conjI impI)
  assume w: "LocalityLbEndpoints_load_balancing_weight entry = None \<or>
     LocalityLbEndpoints_load_balancing_weight entry = Some 0"
  then show lp: "LocalityParse s2s entry errors = (None, errors)" for errors
    by (auto simp: LocalityParse_def)
  show "EdsResourceParse_locality s2s h i entry st = st"
    by (simp add: EdsResourceParse_locality_def lp)
next
  assume u: "LbEndpoint_health_status lb_endpoint \<noteq> envoy_config_core_v3_UNKNOWN \<and>
    LbEndpoint_health_status lb_endpoint \<noteq> envoy_config_core_v3_HEALTHY"
  then show sa: "ServerAddressParse s2s lb_endpoint errors = (None, errors)" for errors
    by (simp add: ServerAddressParse_def)
  show "LocalityParse_lb_endpoints s2s (lb_endpoint # rest) j eps errors =
        LocalityParse_lb_endpoints s2s rest (Suc j) eps errors"
    by (simp add: sa)
qed

theorem zero_weight_and_unhealthy_skipped_witness:
  "EdsResourceParse_locality example_StringToSockaddr region 0
     ((example_entry ''r'' 0)\<lparr>LocalityLbEndpoints_load_balancing_weight := Some 0\<rparr>)
     ([], empty_errors) = ([], empty_errors) \<and>
   LocalityParse_lb_endpoints example_StringToSockaddr [example_endpoint 2, example_endpoint 1] 0 []
     empty_errors =
   LocalityParse_lb_endpoints example_StringToSockaddr [example_endpoint 1] 1 [] empty_errors"
  using zero_weight_and_unhealthy_skipped
      [of "(example_entry ''r'' 0)\<lparr>LocalityLbEndpoints_load_balancing_weight := Some 0\<rparr>"
          example_StringToSockaddr empty_errors region 0 "([], empty_errors)"
          "example_endpoint 2" "[example_endpoint 1]" 0 "[]"]
  by (simp add: example_endpoint_def envoy_config_core_v3_UNKNOWN_def envoy_config_core_v3_HEALTHY_def)

text \<open>
  C10 (a locality with an error is discarded): for every call of \<^verbatim>\<open>LocalityParse\<close>, the error
  count differs before and after exactly when the call recorded something, and in that case
  the call returns no locality. In the loop of \<^verbatim>\<open>EdsResourceParse\<close> such an entry leaves the
  priorities untouched and the errors not ok; and the whole parse of a message that holds such
  an entry, at the state the loop has reached when it parses it, returns a failure status.
\<close>

theorem LocalityParse_error_discards:
  "(LocalityParse s2s entry errors = (r, errors') \<longrightarrow>
      (size_errors errors' \<noteq> size_errors errors \<longleftrightarrow> errors' \<noteq> errors) \<and>
      (errors' \<noteq> errors \<longrightarrow> r = None)) \<and>
   (LocalityParse s2s entry (PushField (''['' @ StrCat_nat i @ '']'') (snd st)) = (r, errors') \<and>
    errors' \<noteq> PushField (''['' @ StrCat_nat i @ '']'') (snd st) \<longrightarrow>
      fst (EdsResourceParse_locality s2s h i entry st) = fst st \<and>
      \<not> ok (snd (EdsResourceParse_locality s2s h i entry st))) \<and>
   (ClusterLoadAssignment_endpoints cla = pre @ entry # post \<and>
    LocalityParse s2s entry
      (PushField (''['' @ StrCat_nat (length pre) @ '']'')
         (snd (EdsResourceParse_endpoints s2s h pre 0 ([], PushField ''endpoints'' empty_errors)))) =
      (r, errors') \<and>
    errors' \<noteq> PushField (''['' @ StrCat_nat (length pre) @ '']'')
         (snd (EdsResourceParse_endpoints s2s h pre 0 ([], PushField ''endpoints'' empty_errors))) \<longrightarrow>
      (\<exists>status. EdsResourceParse s2s h cla = Inl status))"
proof -
  have one: "(size_errors e' \<noteq> size_errors e \<longleftrightarrow> e' \<noteq> e) \<and> (e' \<noteq> e \<longrightarrow> r = None)"
    if "LocalityParse s2s entry e = (r, e')" for e e' r
  proof -
    from LocalityParse_grows [OF that]
    have g: "grows (field_errors e) (field_errors e')" and s: "field_stack e' = field_stack e"
      by simp_all
    have "size_errors e' \<noteq> size_errors e \<longleftrightarrow> e' \<noteq> e"
      using grows_size_errors [OF g s] by auto
    moreover have "e' \<noteq> e \<longrightarrow> r = None"
      using LocalityParse_Some [of s2s entry e _ e'] that by (cases r) auto
    ultimately show ?thesis by simp
  qed
  have two: "fst (EdsResourceParse_locality s2s h i entry st) = fst st \<and>
      field_errors (snd (EdsResourceParse_locality s2s h i entry st)) \<noteq> []"
    if lp: "LocalityParse s2s entry (PushField (''['' @ StrCat_nat i @ '']'') (snd st)) = (r, e')"
      and ne: "e' \<noteq> PushField (''['' @ StrCat_nat i @ '']'') (snd st)" for i st r e'
  proof -
    from one [OF lp] ne have r: "r = None" by simp
    from LocalityParse_grows [OF lp]
    have g: "grows (field_errors (PushField (''['' @ StrCat_nat i @ '']'') (snd st))) (field_errors e')"
      and s: "field_stack e' = field_stack (PushField (''['' @ StrCat_nat i @ '']'') (snd st))"
      by simp_all
    from ne s have "field_errors e' \<noteq> field_errors (PushField (''['' @ StrCat_nat i @ '']'') (snd st))"
      using ValidationErrors_eqI by blast
    with g have "field_errors e' \<noteq> []" by (rule grows_neq_not_Nil)
    with lp r show ?thesis by (simp add: EdsResourceParse_locality_def)
  qed
  have three: "\<exists>status. EdsResourceParse s2s h cla = Inl status"
    if eps: "ClusterLoadAssignment_endpoints cla = pre @ entry # post"
      and lp: "LocalityParse s2s entry
        (PushField (''['' @ StrCat_nat (length pre) @ '']'')
           (snd (EdsResourceParse_endpoints s2s h pre 0 ([], PushField ''endpoints'' empty_errors)))) =
        (r, errors')"
      and ne: "errors' \<noteq> PushField (''['' @ StrCat_nat (length pre) @ '']'')
           (snd (EdsResourceParse_endpoints s2s h pre 0 ([], PushField ''endpoints'' empty_errors)))"
  proof -
    let ?st0 = "EdsResourceParse_endpoints s2s h pre 0 ([], PushField ''endpoints'' empty_errors)"
    let ?st1 = "EdsResourceParse_locality s2s h (length pre) entry ?st0"
    let ?st2 = "EdsResourceParse_endpoints s2s h post (Suc (length pre)) ?st1"
    from two [OF lp ne] have n1: "field_errors (snd ?st1) \<noteq> []" by simp
    from EdsResourceParse_endpoints_grows
           [OF refl, where xs = post and i = "Suc (length pre)" and st = ?st1 and ?s2s = s2s and h = h] n1
    have n2: "field_errors (snd ?st2) \<noteq> []" by (blast dest: grows_not_Nil)
    have "EdsResourceParse_endpoints s2s h (ClusterLoadAssignment_endpoints cla) 0
            ([], PushField ''endpoints'' empty_errors) = (fst ?st2, snd ?st2)"
      by (simp add: eps EdsResourceParse_endpoints_append)
    from EdsResourceParse_run_not_ok [OF this n2] show ?thesis
      by (simp add: EdsResourceParse_Inl_iff)
  qed
  from one [of errors r errors'] two [of i st r errors'] three show ?thesis
    by (simp add: ok_def)
qed

theorem LocalityParse_error_discards_witness:
  "LocalityParse example_StringToSockaddr
     ((example_entry ''r'' 0)\<lparr>LocalityLbEndpoints_locality := None\<rparr>)
     (PushField ''[0]'' (PushField ''endpoints'' empty_errors)) =
     (None, \<lparr>field_stack = [''endpoints'', ''[0]''],
             field_errors = [(''endpoints[0].locality'', [''field not present''])]\<rparr>) \<and>
   (\<exists>status. EdsResourceParse example_StringToSockaddr region
       (example_cla [(example_entry ''r'' 0)\<lparr>LocalityLbEndpoints_locality := None\<rparr>]) =
       Inl status)"
proof -
  let ?bad = "(example_entry ''r'' 0)\<lparr>LocalityLbEndpoints_locality := None\<rparr>"
  let ?e' = "\<lparr>field_stack = [''endpoints'', ''[0]''],
             field_errors = [(''endpoints[0].locality'', [''field not present''])]\<rparr>"
  have lp: "LocalityParse example_StringToSockaddr ?bad
     (PushField ''[0]'' (PushField ''endpoints'' empty_errors)) = (None, ?e')"
    by code_simp
  have ne: "?e' \<noteq> PushField ''[0]'' (PushField ''endpoints'' empty_errors)"
    by code_simp
  have z: "StrCat_nat 0 = ''0''" by code_simp
  have eps: "ClusterLoadAssignment_endpoints (example_cla [?bad]) = [] @ ?bad # []"
    by (simp add: example_cla_def)
  from LocalityParse_error_discards
         [where ?s2s = example_StringToSockaddr and h = region and cla = "example_cla [?bad]"
            and pre = "[]" and post = "[]" and entry = ?bad and r = None and errors' = ?e'
            and errors = "PushField ''[0]'' (PushField ''endpoints'' empty_errors)"]
       lp ne z eps
  show ?thesis by simp
qed

text \<open>
  C6 (duplicate locality): let the entries be \<open>pre @ first # mid @ dup # post\<close>, where \<open>first\<close>
  parses to a locality whose name is not yet in its priority when the loop reaches it, and
  \<open>dup\<close> parses to a locality of the same name and priority. Then at the end of the parse the
  locality map of that priority still binds the name to the locality of \<open>first\<close>, the message
  \<^verbatim>\<open>duplicate locality <name> found in priority <p>\<close> is recorded under the path of the
  duplicate entry, \<^verbatim>\<open>endpoints[k]\<close> with \<open>k\<close> its index, and the parse returns a failure status.
\<close>

theorem duplicate_locality_first_kept:
  assumes eps: "ClusterLoadAssignment_endpoints cla = pre @ first # mid @ dup # post"
    and st1: "EdsResourceParse_endpoints s2s h pre 0 ([], PushField ''endpoints'' empty_errors) =
                (ps1, e1)"
    and p1: "LocalityParse s2s first (PushField (''['' @ StrCat_nat (length pre) @ '']'') e1) =
               (Some pl1, e1')"
    and new: "priority pl1 < length ps1 \<longrightarrow>
                map_of (localities (ps1 ! priority pl1)) (name (locality pl1)) = None"
    and st2: "EdsResourceParse_endpoints s2s h (pre @ first # mid) 0
                ([], PushField ''endpoints'' empty_errors) = (ps2, e2)"
    and p2: "LocalityParse s2s dup
               (PushField (''['' @ StrCat_nat (length pre + 1 + length mid) @ '']'') e2) =
               (Some pl2, e2')"
    and same: "name (locality pl2) = name (locality pl1)" "priority pl2 = priority pl1"
  shows "priority pl1 < length (priorities (fst (EdsResourceParse_run s2s h cla))) \<and>
         map_of (localities (priorities (fst (EdsResourceParse_run s2s h cla)) ! priority pl1))
           (name (locality pl1)) = Some (locality pl1) \<and>
         (''duplicate locality '' @ h (name (locality pl2)) @ '' found in priority '' @
            StrCat_nat (priority pl2)) \<in>
           set (messages_at (''endpoints['' @ StrCat_nat (length pre + 1 + length mid) @ '']'')
                  (snd (EdsResourceParse_run s2s h cla))) \<and>
         (\<exists>status. EdsResourceParse s2s h cla = Inl status)"
proof -
  let ?init = "([], PushField ''endpoints'' empty_errors) :: Priority list \<times> ValidationErrors"
  let ?p = "priority pl1" and ?n = "name (locality pl1)"
  let ?k = "length pre + 1 + length mid"
  let ?msg = "''duplicate locality '' @ h (name (locality pl2)) @ '' found in priority '' @
            StrCat_nat (priority pl2)"
  let ?st1' = "EdsResourceParse_locality s2s h (length pre) first (ps1, e1)"
  \<comment> \<open>the first occurrence is inserted\<close>
  from EdsResourceParse_locality_insert [OF p1 new, of h]
  have ins: "?p < length (fst ?st1')" "map_of (localities (fst ?st1' ! ?p)) ?n = Some (locality pl1)"
    by simp_all
  \<comment> \<open>and is still there when the duplicate arrives\<close>
  have "EdsResourceParse_endpoints s2s h (pre @ first # mid) 0 ?init =
          EdsResourceParse_endpoints s2s h mid (Suc (length pre)) ?st1'"
    by (simp add: EdsResourceParse_endpoints_append st1)
  with st2 have mid: "EdsResourceParse_endpoints s2s h mid (Suc (length pre)) ?st1' = (ps2, e2)"
    by simp
  from EdsResourceParse_endpoints_keeps [OF ins, of s2s h mid "Suc (length pre)"] mid
  have at2: "?p < length ps2" "map_of (localities (ps2 ! ?p)) ?n = Some (locality pl1)"
    by simp_all
  \<comment> \<open>the duplicate is not inserted; the error is recorded\<close>
  from at2 same have "priority pl2 < length ps2"
    "map_of (localities (ps2 ! priority pl2)) (name (locality pl2)) = Some (locality pl1)"
    by simp_all
  from EdsResourceParse_locality_found [OF p2 this, of h]
  have dupstep: "EdsResourceParse_locality s2s h ?k dup (ps2, e2) =
           (ps2, e2\<lparr>field_errors :=
                  add_message (concat (field_stack e2) @ ''['' @ StrCat_nat ?k @ '']'') ?msg
                    (field_errors e2)\<rparr>)" .
  let ?e3 = "e2\<lparr>field_errors :=
                  add_message (concat (field_stack e2) @ ''['' @ StrCat_nat ?k @ '']'') ?msg
                    (field_errors e2)\<rparr>"
  from EdsResourceParse_endpoints_field_stack [OF st2]
  have key: "concat (field_stack e2) @ ''['' @ StrCat_nat ?k @ '']'' =
             ''endpoints['' @ StrCat_nat ?k @ '']''" by simp
  have m3: "?msg \<in> set (messages_at (''endpoints['' @ StrCat_nat ?k @ '']'') ?e3)"
    unfolding key by (simp add: messages_at_def map_of_add_message)
  have n3: "field_errors ?e3 \<noteq> []" by simp
  \<comment> \<open>the rest of the loop\<close>
  obtain ps e where fin: "EdsResourceParse_endpoints s2s h post (Suc ?k) (ps2, ?e3) = (ps, e)"
    by (cases "EdsResourceParse_endpoints s2s h post (Suc ?k) (ps2, ?e3)")
  have "EdsResourceParse_endpoints s2s h (ClusterLoadAssignment_endpoints cla) 0 ?init =
          EdsResourceParse_endpoints s2s h (dup # post) ?k
            (EdsResourceParse_endpoints s2s h (pre @ first # mid) 0 ?init)"
    using EdsResourceParse_endpoints_append [of s2s h "pre @ first # mid" "dup # post" 0 ?init]
    by (simp add: eps)
  with st2 dupstep fin
  have all: "EdsResourceParse_endpoints s2s h (ClusterLoadAssignment_endpoints cla) 0 ?init = (ps, e)"
    by simp
  from EdsResourceParse_endpoints_keeps [of ?p "(ps2, ?e3)" ?n "locality pl1" s2s h post "Suc ?k"]
    at2 fin
  have atend: "?p < length ps" "map_of (localities (ps ! ?p)) ?n = Some (locality pl1)"
    by simp_all
  from EdsResourceParse_endpoints_grows [OF fin]
  have g: "grows (field_errors ?e3) (field_errors e)" by simp
  from grows_messages_at [OF g m3]
  have me: "?msg \<in> set (messages_at (''endpoints['' @ StrCat_nat ?k @ '']'') e)" .
  from grows_not_Nil [OF g n3] have ne: "field_errors e \<noteq> []" .
  note parts = EdsResourceParse_run_parts [OF all]
  from EdsResourceParse_empty_grows [of e ps 0]
  have g2: "grows (field_errors e) (field_errors (EdsResourceParse_empty ps 0 e))" by simp
  from grows_messages_at [OF parts(4) grows_messages_at [OF g2 me]]
  have "?msg \<in> set (messages_at (''endpoints['' @ StrCat_nat ?k @ '']'')
                  (snd (EdsResourceParse_run s2s h cla)))" .
  moreover from EdsResourceParse_run_not_ok [OF all ne]
  have "\<exists>status. EdsResourceParse s2s h cla = Inl status"
    by (simp add: EdsResourceParse_Inl_iff)
  ultimately show ?thesis using atend parts(1) by simp
qed

theorem duplicate_locality_first_kept_witness:
  "map_of
     (localities
        (priorities (fst (EdsResourceParse_run example_StringToSockaddr region
                            (example_cla [example_entry ''r'' 0, example_entry ''r'' 0]))) ! 0))
     \<lparr>region = ''r'', zone = ''z'', sub_zone = ''s''\<rparr> =
     Some \<lparr>name = \<lparr>region = ''r'', zone = ''z'', sub_zone = ''s''\<rparr>, lb_weight = 1,
           endpoints = [\<lparr>address = Some ''10.0.0.1'', weight = 1\<rparr>]\<rparr> \<and>
   ''duplicate locality r found in priority 0'' \<in>
     set (messages_at ''endpoints[1]''
            (snd (EdsResourceParse_run example_StringToSockaddr region
                    (example_cla [example_entry ''r'' 0, example_entry ''r'' 0])))) \<and>
   (\<exists>status. EdsResourceParse example_StringToSockaddr region
       (example_cla [example_entry ''r'' 0, example_entry ''r'' 0]) = Inl status)"
proof -
  let ?x = "example_entry ''r'' 0"
  let ?cla = "example_cla [?x, ?x]"
  let ?E = "PushField ''endpoints'' empty_errors"
  let ?N = "\<lparr>region = ''r'', zone = ''z'', sub_zone = ''s''\<rparr>"
  let ?L = "\<lparr>name = ?N, lb_weight = 1,
            endpoints = [\<lparr>address = Some ''10.0.0.1'', weight = 1\<rparr>]\<rparr>"
  let ?pl = "\<lparr>priority = 0, locality = ?L\<rparr>"
  have eps: "ClusterLoadAssignment_endpoints ?cla = [] @ ?x # [] @ ?x # []"
    by (simp add: example_cla_def)
  have st1: "EdsResourceParse_endpoints example_StringToSockaddr region [] 0 ([], ?E) = ([], ?E)"
    by simp
  have p1: "LocalityParse example_StringToSockaddr ?x
              (PushField (''['' @ StrCat_nat (length ([] :: LocalityLbEndpoints list)) @ '']'') ?E) =
              (Some ?pl, PushField ''[0]'' ?E)"
    by code_simp
  have new: "priority ?pl < length ([] :: Priority list) \<longrightarrow>
               map_of (localities ([] ! priority ?pl)) (name (locality ?pl)) = None"
    by simp
  have st2: "EdsResourceParse_endpoints example_StringToSockaddr region ([] @ ?x # []) 0 ([], ?E) =
               ([\<lparr>localities = [(?N, ?L)]\<rparr>], ?E)"
    by code_simp
  have p2: "LocalityParse example_StringToSockaddr ?x
              (PushField (''['' @ StrCat_nat (length ([] :: LocalityLbEndpoints list) + 1
                                              + length ([] :: LocalityLbEndpoints list)) @ '']'') ?E) =
              (Some ?pl, PushField ''[1]'' ?E)"
    by code_simp
  from duplicate_locality_first_kept [OF eps st1 p1 new st2 p2 refl refl]
  show ?thesis by (simp add: StrCat_nat.simps)
qed

end
